theory Spec2Isabelle
  imports Complex_Main "HOL-Library.AList" "HOL-Library.Char_ord" "HOL-Library.List_Lexorder"
begin

section \<open>Exceptions (s3api/exceptions.py)\<close>

text \<open>
  The subclasses of \<open>S3Error\<close> that \<open>auth.py\<close> and \<open>handlers.py\<close> name, with the
  codes and status codes \<open>exceptions.py\<close> gives them.
\<close>

text \<open>Modelled from the spec: the classes \<open>S3NoSuchUpload\<close> and
  \<open>S3CompleteMultipartAlreadyInProgress\<close>, which \<open>handlers.py\<close> names and
  \<open>exceptions.py\<close> does not define; code and status follow the error taxonomy
  (no-such-upload: not found; complete-already-in-progress: conflict).\<close>

datatype s3_class =
    S3InternalError
  | S3InvalidRequest
  | S3InvalidAccessKeyId
  | S3EntityTooSmall
  | S3InvalidPart
  | S3SignatureDoesNotMatch
  | S3AuthorizationHeaderMalformed
  | S3NoSuchUpload
  | S3CompleteMultipartAlreadyInProgress

fun default_code :: "s3_class \<Rightarrow> string" where
  "default_code S3InternalError = ''InternalError''"
| "default_code S3InvalidRequest = ''InvalidRequest''"
| "default_code S3InvalidAccessKeyId = ''InvalidAccessKeyId''"
| "default_code S3EntityTooSmall = ''EntityTooSmall''"
| "default_code S3InvalidPart = ''InvalidPart''"
| "default_code S3SignatureDoesNotMatch = ''SignatureDoesNotMatch''"
| "default_code S3AuthorizationHeaderMalformed = ''AuthorizationHeaderMalformed''"
| "default_code S3NoSuchUpload = ''NoSuchUpload''"
| "default_code S3CompleteMultipartAlreadyInProgress = ''CompleteMultipartAlreadyInProgress''"

fun default_status_code :: "s3_class \<Rightarrow> nat" where
  "default_status_code S3InternalError = 500"
| "default_status_code S3InvalidRequest = 400"
| "default_status_code S3InvalidAccessKeyId = 403"
| "default_status_code S3EntityTooSmall = 400"
| "default_status_code S3InvalidPart = 400"
| "default_status_code S3SignatureDoesNotMatch = 403"
| "default_status_code S3AuthorizationHeaderMalformed = 400"
| "default_status_code S3NoSuchUpload = 404"
| "default_status_code S3CompleteMultipartAlreadyInProgress = 409"

text \<open>
  A raised Python exception. \<open>S3Error c msg\<close> is an instance of the class \<open>c\<close> built
  with the positional message \<open>msg\<close> (the empty message stands for the class default, as
  \<open>S3Error.__init__\<close> has it). The other constructors are the built-in exceptions the
  modelled code can raise by itself.
\<close>

datatype exn =
    S3Error s3_class string
  | ValueError
  | AttributeError
  | TypeError
  | KeyError
  | IndexError
  | OtherException string

fun is_S3Error :: "exn \<Rightarrow> bool" where
  "is_S3Error (S3Error c m) = True"
| "is_S3Error e = False"

text \<open>\<open>S3Error.err_data\<close>: the (Code, Message) pair an error response carries.\<close>

fun err_data :: "s3_class \<Rightarrow> string \<Rightarrow> string \<times> string" where
  "err_data c m = (default_code c, m)"

type_synonym 'a result = "exn + 'a"

section \<open>Python string operations\<close>

definition py_lower_char :: "char \<Rightarrow> char" where
  "py_lower_char c =
     (let n = (of_char c :: nat) in if 65 \<le> n \<and> n \<le> 90 then char_of (n + 32) else c)"

definition py_upper_char :: "char \<Rightarrow> char" where
  "py_upper_char c =
     (let n = (of_char c :: nat) in if 97 \<le> n \<and> n \<le> 122 then char_of (n - 32) else c)"

definition py_lower :: "string \<Rightarrow> string" where
  "py_lower s = map py_lower_char s"

definition py_upper :: "string \<Rightarrow> string" where
  "py_upper s = map py_upper_char s"

text \<open>\<open>s.split(c)\<close> for a one-character separator: never the empty list.\<close>

fun split_sep :: "char \<Rightarrow> string \<Rightarrow> string list" where
  "split_sep c [] = [[]]"
| "split_sep c (x # xs) =
     (if x = c then [] # split_sep c xs
      else (case split_sep c xs of [] \<Rightarrow> [[x]] | y # ys \<Rightarrow> (x # y) # ys))"

text \<open>\<open>s.split(c, maxsplit=1)\<close>: one or two pieces.\<close>

definition split_sep1 :: "char \<Rightarrow> string \<Rightarrow> string list" where
  "split_sep1 c s =
     (if c \<in> set s then [takeWhile (\<lambda>x. x \<noteq> c) s, tl (dropWhile (\<lambda>x. x \<noteq> c) s)]
      else [s])"

text \<open>\<open>s.strip(c)\<close> for a one-character argument.\<close>

definition strip_char :: "char \<Rightarrow> string \<Rightarrow> string" where
  "strip_char c s = rev (dropWhile (\<lambda>x. x = c) (rev (dropWhile (\<lambda>x. x = c) s)))"

text \<open>
  White space as \<open>bytes.split\<close> has it: space, tab, line feed, vertical tab, form feed,
  carriage return. (\<open>str.split\<close> knows further separators outside ASCII and the four
  control characters 0x1C to 0x1F; header values holding those are not modelled.)
\<close>

definition is_space :: "char \<Rightarrow> bool" where
  "is_space c = ((of_char c :: nat) = 32 \<or> (9 \<le> (of_char c :: nat) \<and> (of_char c :: nat) \<le> 13))"

text \<open>\<open>s.split()\<close>: the maximal runs of non-whitespace.\<close>

fun split_ws_acc :: "string \<Rightarrow> string \<Rightarrow> string list" where
  "split_ws_acc cur [] = (if cur = [] then [] else [rev cur])"
| "split_ws_acc cur (x # xs) =
     (if is_space x then (if cur = [] then split_ws_acc [] xs else rev cur # split_ws_acc [] xs)
      else split_ws_acc (x # cur) xs)"

definition split_ws :: "string \<Rightarrow> string list" where
  "split_ws s = split_ws_acc [] s"

text \<open>
  \<open>s.split(maxsplit=1)\<close>: the first run of non-whitespace and, when anything but
  whitespace follows it, the rest of the string from there on.
\<close>

definition split_ws1 :: "string \<Rightarrow> string list" where
  "split_ws1 s =
     (let s1 = dropWhile is_space s in
      if s1 = [] then []
      else (let tok = takeWhile (\<lambda>x. \<not> is_space x) s1;
                rest = dropWhile is_space (dropWhile (\<lambda>x. \<not> is_space x) s1)
            in if rest = [] then [tok] else [tok, rest]))"

text \<open>\<open>sep.join(xs)\<close>.\<close>

fun join :: "string \<Rightarrow> string list \<Rightarrow> string" where
  "join sep [] = []"
| "join sep [x] = x"
| "join sep (x # y # ys) = x @ sep @ join sep (y # ys)"

text \<open>
  \<open>urllib.parse.quote(s, safe)\<close>. A Python \<open>str\<close> is modelled by its UTF-8 bytes, so
  the percent-encoding works byte by byte: unreserved bytes and the bytes of \<open>safe\<close>
  stay, every other byte becomes \<open>%XX\<close> in upper-case hexadecimal.
\<close>

definition always_safe :: "string" where
  "always_safe = ''ABCDEFGHIJKLMNOPQRSTUVWXYZabcdefghijklmnopqrstuvwxyz0123456789_.-~''"

definition hex_upper :: "nat \<Rightarrow> char" where
  "hex_upper n = (if n < 10 then char_of (48 + n) else char_of (55 + n))"

definition hex_lower :: "nat \<Rightarrow> char" where
  "hex_lower n = (if n < 10 then char_of (48 + n) else char_of (87 + n))"

definition quote :: "string \<Rightarrow> string \<Rightarrow> string" where
  "quote s safe =
     concat (map (\<lambda>c. if c \<in> set always_safe \<or> c \<in> set safe then [c]
                       else [CHR ''%'', hex_upper ((of_char c :: nat) div 16),
                             hex_upper ((of_char c :: nat) mod 16)]) s)"

text \<open>\<open>bytes.hex()\<close>: lower-case hexadecimal, two digits a byte.\<close>

definition hexlify :: "string \<Rightarrow> string" where
  "hexlify s =
     concat (map (\<lambda>c. [hex_lower ((of_char c :: nat) div 16),
                        hex_lower ((of_char c :: nat) mod 16)]) s)"

definition newline :: "string" where
  "newline = [CHR 0x0A]"

section \<open>The SigV4 authenticator (s3api/auth.py)\<close>

definition AWS4_HMAC_SHA256 :: "string" where
  "AWS4_HMAC_SHA256 = ''AWS4-HMAC-SHA256''"

text \<open>
  The request as the authenticator reads it: method, path, the query parameters (one
  value a name, names distinct) and the headers, looked up without regard to case.
\<close>

record request =
  req_method :: string
  req_path :: string
  query_params :: "(string \<times> string) list"
  req_headers :: "(string \<times> string) list"

definition headers_get :: "request \<Rightarrow> string \<Rightarrow> string option" where
  "headers_get request name =
     map_of (map (\<lambda>(k, v). (py_lower k, v)) (req_headers request)) (py_lower name)"

definition query_get :: "request \<Rightarrow> string \<Rightarrow> string option" where
  "query_get request name = map_of (query_params request) name"

text \<open>
  \<open>rest_framework.authentication.get_authorization_header\<close>: the bytes of the
  Authorization header, empty when the header is absent.
\<close>

definition get_authorization_header :: "request \<Rightarrow> string" where
  "get_authorization_header request =
     (case headers_get request ''Authorization'' of None \<Rightarrow> [] | Some v \<Rightarrow> v)"

record user =
  username :: string
  is_active :: bool

record auth_key =
  key_id :: string
  secret_key :: string
  key_user :: user
  is_key_active :: bool

text \<open>
  What the authenticator takes from outside this repository: the standard library's
  UTF-8 decoder, \<open>datetime.strptime\<close> for the two timestamp formats, SHA-256 and
  HMAC-SHA-256, the built-in \<open>int\<close> (does it parse this string), and the credential store behind \<open>model.objects.get(id=...)\<close>.
  \<open>strptime_gmt t\<close> is \<open>strptime(t, GMT_FORMAT).strftime(SIGV4_TIMESTAMP)\<close>, \<open>None\<close>
  when \<open>strptime\<close> raises \<open>ValueError\<close>; \<open>strptime_sigv4 t\<close> tells whether
  \<open>strptime(t, SIGV4_TIMESTAMP)\<close> parses.
\<close>

record auth_env =
  utf8_valid :: "string \<Rightarrow> bool"
  strptime_gmt :: "string \<Rightarrow> string option"
  strptime_sigv4 :: "string \<Rightarrow> bool"
  sha256_digest :: "string \<Rightarrow> string"
  hmac_sha256 :: "string \<Rightarrow> string \<Rightarrow> string"
  int_parses :: "string \<Rightarrow> bool"
  find_auth_key :: "string \<Rightarrow> auth_key option"

text \<open>
  The value \<open>authenticate\<close> holds in \<open>credentials\<close>: the dictionary that the header
  parser returns (its items in insertion order; \<open>d[k] = v\<close> is \<open>AList.update k v d\<close>,
  \<open>d.get(k)\<close> is \<open>map_of d k\<close>), or the plain string that \<open>get_timestamp_from_query\<close>
  returns.
\<close>

datatype credentials = CredDict "(string \<times> string) list" | CredStr string

definition malformed :: "exn" where
  "malformed = S3Error S3AuthorizationHeaderMalformed []"

text \<open>\<open>parse_auth_key_string\<close>: the loop over the three comma-separated pieces.\<close>

fun parse_auth_pairs ::
  "string list \<Rightarrow> (string \<times> string) list \<Rightarrow> (string \<times> string) list result" where
  "parse_auth_pairs [] ret = Inr ret"
| "parse_auth_pairs (a # rest) ret =
     (case split_sep1 CHR ''='' (strip_char CHR '' '' a) of
        [name, val] \<Rightarrow>
          if name \<notin> set [''Credential'', ''SignedHeaders'', ''Signature'']
          then Inl malformed
          else parse_auth_pairs rest (AList.update name val ret)
      | _ \<Rightarrow> Inl ValueError)"

definition parse_auth_key_string :: "string \<Rightarrow> (string \<times> string) list result" where
  "parse_auth_key_string auth_key =
     (let auth = split_sep CHR '','' auth_key in
      if length auth \<noteq> 3 then Inl malformed
      else parse_auth_pairs auth [])"

text \<open>\<open>get_timestamp_from_header\<close>: the Date header first, then X-Amz-Date.\<close>

definition get_timestamp_from_header :: "auth_env \<Rightarrow> request \<Rightarrow> string result" where
  "get_timestamp_from_header env request =
     (case headers_get request ''Date'' of
        Some t \<Rightarrow> (case strptime_gmt env t of None \<Rightarrow> Inl ValueError | Some s \<Rightarrow> Inr s)
      | None \<Rightarrow>
          (case headers_get request ''X-Amz-Date'' of
             Some t \<Rightarrow> if strptime_sigv4 env t then Inr t else Inl ValueError
           | None \<Rightarrow> Inr []))"

text \<open>\<open>get_timestamp_from_query\<close>: a string in every case, never \<open>None\<close>.\<close>

definition get_timestamp_from_query :: "auth_env \<Rightarrow> request \<Rightarrow> string result" where
  "get_timestamp_from_query env request =
     (case query_get request ''X-Amz-Date'' of
        None \<Rightarrow> Inr []
      | Some t \<Rightarrow> if strptime_sigv4 env t then Inr t else Inl ValueError)"

text \<open>
  \<open>get_credentials_from_header\<close>: the credentials (or \<open>None\<close>) and the value left in
  \<open>self.s3_timestamp\<close> (\<open>None\<close> while the attribute is not set).
\<close>

definition get_credentials_from_header ::
  "auth_env \<Rightarrow> request \<Rightarrow> (credentials option \<times> string option) result" where
  "get_credentials_from_header env request =
     (let auth = split_ws1 (get_authorization_header request) in
      if auth = [] \<or> py_lower (hd auth) \<noteq> py_lower AWS4_HMAC_SHA256 then Inr (None, None)
      else if length auth = 1
      then Inl (S3Error S3AuthorizationHeaderMalformed
                  ''Invalid auth header. No credentials provided.'')
      else if \<not> utf8_valid env (auth ! 1)
      then Inl (S3Error S3AuthorizationHeaderMalformed
                  ''Invalid auth header. Auth string should not contain invalid characters.'')
      else (case get_timestamp_from_header env request of
              Inl e \<Rightarrow> Inl e
            | Inr ts \<Rightarrow>
                (case parse_auth_key_string (auth ! 1) of
                   Inl e \<Rightarrow> Inl e
                 | Inr d \<Rightarrow> Inr (Some (CredDict d), Some ts))))"

text \<open>
  \<open>get_credentials_from_query\<close>. The dictionary it returns holds the three strings;
  the Expires entry is an integer that nothing reads, and only its conversion can fail
  (\<open>int(None)\<close> raises \<open>TypeError\<close>, a string that is no numeral \<open>ValueError\<close>).
\<close>

definition get_credentials_from_query ::
  "auth_env \<Rightarrow> request \<Rightarrow> (credentials option \<times> string option) result" where
  "get_credentials_from_query env request =
     (case query_get request ''X-Amz-Algorithm'' of
        None \<Rightarrow> Inr (None, None)
      | Some algorithm \<Rightarrow>
          if algorithm \<noteq> ''AWS4-HMAC-SHA256'' then Inl malformed
          else (case get_timestamp_from_query env request of
                  Inl e \<Rightarrow> Inl e
                | Inr ts \<Rightarrow>
                    (case query_get request ''X-Amz-Expires'' of
                       None \<Rightarrow> Inl TypeError
                     | Some x \<Rightarrow>
                         if \<not> int_parses env x then Inl ValueError
                         else Inr (Some (CredDict
                                [(''Credential'',
                                   (case query_get request ''X-Amz-Credential'' of
                                      None \<Rightarrow> [] | Some v \<Rightarrow> v)),
                                 (''SignedHeaders'',
                                   (case query_get request ''X-Amz-SignedHeaders'' of
                                      None \<Rightarrow> [] | Some v \<Rightarrow> v)),
                                 (''Signature'',
                                   (case query_get request ''X-Amz-Signature'' of
                                      None \<Rightarrow> [] | Some v \<Rightarrow> v))]),
                              Some ts))))"

text \<open>\<open>_header_value\<close>: \<open>' '.join(value.split())\<close>.\<close>

definition header_value :: "string \<Rightarrow> string" where
  "header_value v = join '' '' (split_ws v)"

text \<open>
  \<open>canonical_headers\<close>. A signed header that the request does not carry makes
  \<open>request.headers.get\<close> return \<open>None\<close>, and \<open>_header_value(None)\<close> raises
  \<open>AttributeError\<close>; so does \<open>signed_headers.split\<close> when the credentials hold
  no SignedHeaders entry.
\<close>

fun canonical_header_lines :: "request \<Rightarrow> string list \<Rightarrow> string list result" where
  "canonical_header_lines request [] = Inr []"
| "canonical_header_lines request (key # keys) =
     (case headers_get request key of
        None \<Rightarrow> Inl AttributeError
      | Some v \<Rightarrow>
          (case canonical_header_lines request keys of
             Inl e \<Rightarrow> Inl e
           | Inr ls \<Rightarrow> Inr ((key @ '':'' @ header_value v) # ls)))"

definition canonical_headers :: "request \<Rightarrow> string option \<Rightarrow> string result" where
  "canonical_headers request signed_headers =
     (case signed_headers of
        None \<Rightarrow> Inl AttributeError
      | Some sh \<Rightarrow>
          (case canonical_header_lines request (split_sep CHR '';'' sh) of
             Inl e \<Rightarrow> Inl e
           | Inr ls \<Rightarrow> Inr (join newline ls)))"

text \<open>\<open>canonical_query_string\<close>: the names sorted, each pair percent-encoded.\<close>

fun canonical_query_pairs :: "request \<Rightarrow> string list \<Rightarrow> string list result" where
  "canonical_query_pairs request [] = Inr []"
| "canonical_query_pairs request (name # names) =
     (case query_get request name of
        None \<Rightarrow> Inl KeyError
      | Some v \<Rightarrow>
          (case canonical_query_pairs request names of
             Inl e \<Rightarrow> Inl e
           | Inr l \<Rightarrow> Inr ((quote name ''-_.~'' @ ''='' @ quote v ''-_.~'') # l)))"

definition canonical_query_string :: "request \<Rightarrow> string result" where
  "canonical_query_string request =
     (case canonical_query_pairs request (sort (map fst (query_params request))) of
        Inl e \<Rightarrow> Inl e
      | Inr l \<Rightarrow> Inr (join ''&'' l))"

definition canonical_request :: "request \<Rightarrow> string option \<Rightarrow> string result" where
  "canonical_request request signed_headers =
     (case canonical_query_string request of
        Inl e \<Rightarrow> Inl e
      | Inr cqs \<Rightarrow>
          (case canonical_headers request signed_headers of
             Inl e \<Rightarrow> Inl e
           | Inr ch \<Rightarrow>
               (case signed_headers of
                  None \<Rightarrow> Inl AttributeError
                | Some sh \<Rightarrow>
                    (case headers_get request ''X-Amz-Content-SHA256'' of
                       None \<Rightarrow> Inl KeyError
                     | Some body_checksum \<Rightarrow>
                         Inr (join newline
                                [py_upper (req_method request), quote (req_path request) ''/'',
                                 cqs, ch @ newline, sh, body_checksum])))))"

text \<open>\<open>credential_scope\<close>: the credential without its access key.\<close>

definition credential_scope :: "string \<Rightarrow> string" where
  "credential_scope s3_credential = last (split_sep1 CHR ''/'' s3_credential)"

text \<open>
  \<open>string_to_sign\<close>; \<open>s3_timestamp\<close> is \<open>None\<close> while the attribute is not set,
  and reading it then raises \<open>AttributeError\<close>.
\<close>

definition string_to_sign ::
  "auth_env \<Rightarrow> string option \<Rightarrow> string \<Rightarrow> string \<Rightarrow> string result" where
  "string_to_sign env s3_timestamp s3_credential cr =
     (case s3_timestamp of
        None \<Rightarrow> Inl AttributeError
      | Some ts \<Rightarrow>
          Inr (join newline
                 [''AWS4-HMAC-SHA256'', ts, credential_scope s3_credential,
                  hexlify (sha256_digest env cr)]))"

text \<open>\<open>signature\<close>: the chain of keyed hashes, \<open>_sign\<close> being HMAC-SHA-256.\<close>

definition signature ::
  "auth_env \<Rightarrow> string option \<Rightarrow> string \<Rightarrow> string \<Rightarrow> string \<Rightarrow> string \<Rightarrow> string result" where
  "signature env s3_timestamp region_name service_name sts key =
     (case s3_timestamp of
        None \<Rightarrow> Inl AttributeError
      | Some ts \<Rightarrow>
          (let k_date = hmac_sha256 env (''AWS4'' @ key) (take 8 ts);
               k_region = hmac_sha256 env k_date region_name;
               k_service = hmac_sha256 env k_region service_name;
               k_signing = hmac_sha256 env k_service ''aws4_request''
           in Inr (hexlify (hmac_sha256 env k_signing sts))))"

text \<open>The body of the \<open>try\<close> block of \<open>generate_signature\<close>.\<close>

definition signature_pipeline ::
  "auth_env \<Rightarrow> request \<Rightarrow> string option \<Rightarrow> string \<Rightarrow> string \<Rightarrow> string \<Rightarrow>
   string option \<Rightarrow> string \<Rightarrow> string result" where
  "signature_pipeline env request s3_timestamp s3_credential region_name service_name
     signed_headers key =
     (case canonical_request request signed_headers of
        Inl e \<Rightarrow> Inl e
      | Inr cr \<Rightarrow>
          (case string_to_sign env s3_timestamp s3_credential cr of
             Inl e \<Rightarrow> Inl e
           | Inr sts \<Rightarrow> signature env s3_timestamp region_name service_name sts key))"

text \<open>\<open>generate_signature\<close>: \<open>except Exception\<close> turns every exception into one error.\<close>

definition generate_signature ::
  "auth_env \<Rightarrow> request \<Rightarrow> string option \<Rightarrow> string \<Rightarrow> string \<Rightarrow> string \<Rightarrow>
   string option \<Rightarrow> string \<Rightarrow> string result" where
  "generate_signature env request s3_timestamp s3_credential region_name service_name
     signed_headers key =
     (case signature_pipeline env request s3_timestamp s3_credential region_name service_name
             signed_headers key of
        Inl e \<Rightarrow> Inl malformed
      | Inr sig \<Rightarrow> Inr sig)"

text \<open>
  \<open>authenticate_credentials\<close>. A string has no \<open>get\<close> (\<open>AttributeError\<close>); a
  missing Credential entry is \<open>None\<close>, and \<open>None.split\<close> raises \<open>AttributeError\<close>;
  unpacking a list that has not exactly five fields raises \<open>ValueError\<close>. None of the
  three is inside a \<open>try\<close>.
\<close>

definition authenticate_credentials ::
  "auth_env \<Rightarrow> request \<Rightarrow> string option \<Rightarrow> credentials \<Rightarrow> (user \<times> auth_key) result" where
  "authenticate_credentials env request s3_timestamp credentials =
     (case credentials of
        CredStr s \<Rightarrow> Inl AttributeError
      | CredDict d \<Rightarrow>
          (let credential = map_of d ''Credential'';
               signed_headers = map_of d ''SignedHeaders'';
               signature = map_of d ''Signature''
           in case credential of
                None \<Rightarrow> Inl AttributeError
              | Some cred \<Rightarrow>
                  (let fields = split_sep CHR ''/'' cred in
                   if length fields \<noteq> 5 then Inl ValueError
                   else (let access_key = fields ! 0;
                             region_name = fields ! 2;
                             service_name = fields ! 3
                         in case find_auth_key env access_key of
                              None \<Rightarrow> Inl (S3Error S3InvalidAccessKeyId [])
                            | Some auth_key \<Rightarrow>
                                if \<not> is_active (key_user auth_key)
                                then Inl (S3Error S3InvalidAccessKeyId
                                            ''User inactive or deleted.'')
                                else if \<not> is_key_active auth_key
                                then Inl (S3Error S3InvalidAccessKeyId
                                       ''Invalid access_key. Key is inactive and unavailable'')
                                else (case generate_signature env request s3_timestamp cred
                                             region_name service_name signed_headers
                                             (secret_key auth_key) of
                                        Inl e \<Rightarrow> Inl e
                                      | Inr sig \<Rightarrow>
                                          if Some sig \<noteq> signature then Inl malformed
                                          else Inr (key_user auth_key, auth_key))))))"

text \<open>
  \<open>authenticate\<close>. When the header gives no credentials the method calls
  \<open>get_timestamp_from_query\<close>, whose string becomes \<open>credentials\<close>.
\<close>

definition authenticate :: "auth_env \<Rightarrow> request \<Rightarrow> (user \<times> auth_key) option result" where
  "authenticate env request =
     (case get_credentials_from_header env request of
        Inl e \<Rightarrow> Inl e
      | Inr (credentials, s3_timestamp) \<Rightarrow>
          (case (case credentials of
                   None \<Rightarrow>
                     (case get_timestamp_from_query env request of
                        Inl e \<Rightarrow> Inl e
                      | Inr t \<Rightarrow> Inr (Some (CredStr t)))
                 | Some c \<Rightarrow> Inr (Some c)) of
             Inl e \<Rightarrow> Inl e
           | Inr None \<Rightarrow> Inr None
           | Inr (Some creds) \<Rightarrow>
               (case authenticate_credentials env request s3_timestamp creds of
                  Inl e \<Rightarrow> Inl e
                | Inr r \<Rightarrow> Inr (Some r))))"

section \<open>The multipart upload handlers (s3api/handlers.py)\<close>

subsection \<open>The stores behind the handlers\<close>

text \<open>
  \<open>S3Error.__init__(self, message, code, status_code)\<close> has no parameter
  \<open>extend_msg\<close>: a constructor call with that keyword raises \<open>TypeError\<close> before any
  \<open>S3Error\<close> exists. This is what the call sites \<open>S3InvalidPart(extend_msg=...)\<close> and
  \<open>S3InternalError(extend_msg=...)\<close> of \<open>handlers.py\<close> evaluate to.
\<close>

definition raised_with_extend_msg :: "s3_class \<Rightarrow> string \<Rightarrow> exn" where
  "raised_with_extend_msg c msg = TypeError"

datatype upload_status = Uploading | Composing | Completed

text \<open>A part's metadata row (PartEntry).\<close>

record part =
  part_num :: nat
  part_size :: nat
  part_md5 :: string
  obj_offset :: nat
  obj_etag :: string
  obj_id :: nat
  parts_count :: nat

text \<open>The calls into the stores that can fail.\<close>

datatype store_op =
    UploadDelete
  | UploadSetComposing
  | ObjReset
  | ObjWrite
  | ObjSave
  | PartMetaDelete
  | PartRadosDelete
  | PartSave

text \<open>One call into a store: the operation, the part number it is about (0 when it is
  not about a part), and whether it succeeded.\<close>

datatype event = Ev store_op nat bool

text \<open>
  The state the handlers run against: the upload session's status (\<open>None\<close> once its
  record is deleted), the destination object (exists, size and hash of its metadata,
  backing bytes), the session's part rows, each part's stored blocks as the reader yields
  them, the outcomes of the coming store calls by operation (an exhausted list means
  success), the number of clock readings taken, and the store calls made so far.
\<close>

record world =
  upload_status :: "upload_status option"
  obj_exists :: bool
  obj_si :: nat
  obj_md5 :: string
  obj_bytes :: string
  parts_db :: "part list"
  part_blocks :: "nat \<Rightarrow> string list"
  script :: "store_op \<Rightarrow> bool list"
  ticks :: nat
  events :: "event list"

text \<open>
  What the handlers take from outside: the readings of \<open>time.time()\<close> in seconds, by the
  number of readings taken before; the two MD5 helpers of \<open>utils.md5\<close>; the setting
  \<open>S3_MULTIPART_UPLOAD_MIN_SIZE\<close>; the id of the destination object; the text of the
  exception that a failing reset raises.
\<close>

record handler_env =
  clock :: "nat \<Rightarrow> rat"
  md5_hexdigest :: "string \<Rightarrow> string"
  multipart_etag_hex :: "string list \<Rightarrow> string"
  MULTIPART_UPLOAD_MIN_SIZE :: nat
  dest_obj_id :: nat
  reset_exc_text :: string

definition MULTIPART_UPLOAD_MIN_SIZE_default :: nat where
  "MULTIPART_UPLOAD_MIN_SIZE_default = 5 * 1024 ^ 2"

definition time_time :: "handler_env \<Rightarrow> world \<Rightarrow> rat \<times> world" where
  "time_time env w = (clock env (ticks w), w\<lparr>ticks := ticks w + 1\<rparr>)"

definition store_call :: "store_op \<Rightarrow> nat \<Rightarrow> world \<Rightarrow> bool \<times> world" where
  "store_call oper arg w =
     (let ok = (case script w oper of [] \<Rightarrow> True | b # bs \<Rightarrow> b)
      in (ok, w\<lparr>script := (script w)(oper := tl (script w oper)),
                 events := events w @ [Ev oper arg ok]\<rparr>))"

text \<open>Modelled from the spec: the upload session's state tests and transitions
  (\<open>is_composing\<close>, \<open>is_completed\<close>, \<open>safe_delete\<close>, \<open>set_composing\<close>, \<open>set_uploading\<close>,
  \<open>set_completed\<close> of the session model, which is not among the sources). Composing is
  entered only from uploading, by a compare-and-set that can fail.\<close>

definition is_composing :: "world \<Rightarrow> bool" where
  "is_composing w = (upload_status w = Some Composing)"

definition is_completed :: "world \<Rightarrow> bool" where
  "is_completed w = (upload_status w = Some Completed)"

definition upload_safe_delete :: "world \<Rightarrow> bool \<times> world" where
  "upload_safe_delete w =
     (let (ok, w1) = store_call UploadDelete 0 w
      in (ok, if ok then w1\<lparr>upload_status := None\<rparr> else w1))"

definition set_composing :: "world \<Rightarrow> bool \<times> world" where
  "set_composing w =
     (let (ok, w1) = store_call UploadSetComposing 0 w
      in if ok \<and> upload_status w = Some Uploading
         then (True, w1\<lparr>upload_status := Some Composing\<rparr>)
         else (False, w1))"

definition set_uploading :: "world \<Rightarrow> world" where
  "set_uploading w =
     (if upload_status w = None then w else w\<lparr>upload_status := Some Uploading\<rparr>)"

definition set_completed :: "world \<Rightarrow> world" where
  "set_completed w =
     (if upload_status w = None then w else w\<lparr>upload_status := Some Completed\<rparr>)"

text \<open>Modelled from the spec: \<open>HarborManager.get_or_create_obj\<close> (the object entry is
  created, empty, or reused) and \<open>HarborManager._pre_reset_upload\<close> (the backing bytes of
  a non-empty object are truncated; a failure raises and changes nothing).\<close>

definition get_or_create_obj :: "world \<Rightarrow> bool \<times> world" where
  "get_or_create_obj w =
     (if obj_exists w then (False, w)
      else (True, w\<lparr>obj_exists := True, obj_si := 0, obj_md5 := [], obj_bytes := []\<rparr>))"

definition pre_reset_upload :: "handler_env \<Rightarrow> world \<Rightarrow> (exn + unit) \<times> world" where
  "pre_reset_upload env w =
     (let (ok, w1) = store_call ObjReset 0 w
      in if ok then (Inr (), w1\<lparr>obj_si := 0, obj_md5 := [], obj_bytes := []\<rparr>)
         else (Inl (OtherException (reset_exc_text env)), w1))"

text \<open>\<open>str(exc)\<close>: the message of the exception.\<close>

fun str_exc :: "exn \<Rightarrow> string" where
  "str_exc (OtherException t) = t"
| "str_exc (S3Error c m) = m"
| "str_exc e = []"

text \<open>Modelled from the spec: the byte store (write at an offset, delete by key) and the
  part rows (\<open>safe_delete\<close>, \<open>save\<close>), none of which is among the sources.\<close>

definition write_at :: "nat \<Rightarrow> string \<Rightarrow> string \<Rightarrow> string" where
  "write_at offset data bytes =
     take offset (bytes @ replicate (offset - length bytes) (CHR 0x00)) @ data @
     drop (offset + length data) bytes"

definition obj_rados_write :: "nat \<Rightarrow> string \<Rightarrow> world \<Rightarrow> bool \<times> world" where
  "obj_rados_write offset data w =
     (let (ok, w1) = store_call ObjWrite offset w
      in (ok, if ok then w1\<lparr>obj_bytes := write_at offset data (obj_bytes w1)\<rparr> else w1))"

definition part_safe_delete :: "part \<Rightarrow> world \<Rightarrow> bool \<times> world" where
  "part_safe_delete p w =
     (let (ok, w1) = store_call PartMetaDelete (part_num p) w
      in (ok, if ok then w1\<lparr>parts_db := filter (\<lambda>q. part_num q \<noteq> part_num p) (parts_db w1)\<rparr>
              else w1))"

definition part_rados_delete :: "part \<Rightarrow> world \<Rightarrow> bool \<times> world" where
  "part_rados_delete p w =
     (let (ok, w1) = store_call PartRadosDelete (part_num p) w
      in (ok, if ok then w1\<lparr>part_blocks := (part_blocks w1)(part_num p := [])\<rparr> else w1))"

definition part_save :: "part \<Rightarrow> world \<Rightarrow> bool \<times> world" where
  "part_save p w =
     (let (ok, w1) = store_call PartSave (part_num p) w
      in (ok, if ok
              then w1\<lparr>parts_db := map (\<lambda>q. if part_num q = part_num p then p else q) (parts_db w1)\<rparr>
              else w1))"

text \<open>Modelled from the spec: the two queries of \<open>ObjectPartManager\<close> over the session's part
  rows: all of them, and those whose \<open>obj_id\<close> is the given one (0: not yet combined).\<close>

definition get_parts_queryset_by_upload_id :: "world \<Rightarrow> part list" where
  "get_parts_queryset_by_upload_id w = parts_db w"

definition get_parts_queryset_by_upload_id_obj_id :: "world \<Rightarrow> nat \<Rightarrow> part list" where
  "get_parts_queryset_by_upload_id_obj_id w oid = filter (\<lambda>p. obj_id p = oid) (parts_db w)"

subsection \<open>Responses\<close>

text \<open>
  What a streamed completion writes: the XML declaration, a filler space, and the final
  document (the result with Location, Bucket, Key and ETag, or an error with its class and
  message); the flag of a final document tells whether the renderer puts the XML
  declaration in front.
\<close>

datatype chunk =
    XmlDeclaration
  | WhiteSpace
  | ResultXml bool string string string string
  | ErrorXml bool s3_class string

datatype response =
    ErrorResponse s3_class string
  | NoContent
  | IterResponse "chunk list"

subsection \<open>clear_parts_cache_iter\<close>

text \<open>
  The generator, run to its end: the values it yields in order (\<open>None\<close> for a keep-alive
  marker, the list of parts whose metadata deletion failed last) and the state it leaves.
  \<open>start_time\<close> is the local of that name. \<open>clear_one_part\<close> is the loop body up to
  the reading of the clock: the list of failed parts, the reading, the state.
\<close>

definition clear_one_part ::
  "handler_env \<Rightarrow> bool \<Rightarrow> part \<Rightarrow> part list \<Rightarrow> world \<Rightarrow> part list \<times> rat \<times> world" where
  "clear_one_part env is_rm_metadata p remove_failed_parts w =
     (let (failed1, w1) =
            (if is_rm_metadata
             then (let (ok1, wa) = part_safe_delete p w in
                   if \<not> ok1
                   then (let (ok2, wb) = part_safe_delete p wa in
                         if \<not> ok2 then (remove_failed_parts @ [p], wb)
                         else (remove_failed_parts, wb))
                   else (remove_failed_parts, wa))
             else (remove_failed_parts, w));
          (ok, w2) = part_rados_delete p w1;
          w3 = (if \<not> ok then snd (part_rados_delete p w2) else w2);
          (now_time, w4) = time_time env w3
      in (failed1, now_time, w4))"

fun clear_parts_loop ::
  "handler_env \<Rightarrow> bool \<Rightarrow> part list \<Rightarrow> rat \<Rightarrow> part list \<Rightarrow> world \<Rightarrow>
   part list option list \<times> world" where
  "clear_parts_loop env is_rm_metadata [] start_time remove_failed_parts w =
     ([Some remove_failed_parts], w)"
| "clear_parts_loop env is_rm_metadata (p # ps) start_time remove_failed_parts w =
     (let (failed1, now_time, w4) = clear_one_part env is_rm_metadata p remove_failed_parts w
      in if now_time - start_time < 10
         then clear_parts_loop env is_rm_metadata ps now_time failed1 w4
         else (let (ys, w5) = clear_parts_loop env is_rm_metadata ps start_time failed1 w4
               in (None # ys, w5)))"

definition clear_parts_cache_iter ::
  "handler_env \<Rightarrow> part list \<Rightarrow> bool \<Rightarrow> world \<Rightarrow> part list option list \<times> world" where
  "clear_parts_cache_iter env parts is_rm_metadata w =
     (let (start_time, w0) = time_time env w
      in clear_parts_loop env is_rm_metadata parts start_time [] w0)"

subsection \<open>abort_multipart_upload\<close>

text \<open>The inner loop over the retry pass: \<open>True\<close> when it returns the internal error.\<close>

fun abort_retry_loop :: "part list option list \<Rightarrow> bool" where
  "abort_retry_loop [] = False"
| "abort_retry_loop (None # ys) = abort_retry_loop ys"
| "abort_retry_loop (Some failed_parts_2 # ys) =
     (if failed_parts_2 = [] then True else abort_retry_loop ys)"

text \<open>The outer loop over the first pass: \<open>True\<close> when it returns the internal error.\<close>

fun abort_clear_loop ::
  "handler_env \<Rightarrow> nat \<Rightarrow> part list option list \<Rightarrow> world \<Rightarrow> bool \<times> world" where
  "abort_clear_loop env all_len [] w = (False, w)"
| "abort_clear_loop env all_len (None # ys) w = abort_clear_loop env all_len ys w"
| "abort_clear_loop env all_len (Some failed_parts # ys) w =
     (if failed_parts \<noteq> []
      then (if length failed_parts > all_len div 2 then (True, w)
            else (let (ys2, w2) = clear_parts_cache_iter env failed_parts True w
                  in if abort_retry_loop ys2 then (True, w2)
                     else abort_clear_loop env all_len ys w2))
      else (False, w))"

definition abort_multipart_upload :: "handler_env \<Rightarrow> world \<Rightarrow> response \<times> world" where
  "abort_multipart_upload env w =
     (if is_composing w then (ErrorResponse S3CompleteMultipartAlreadyInProgress [], w)
      else if is_completed w
      then (let (ok, w1) = upload_safe_delete w in (ErrorResponse S3NoSuchUpload [], w1))
      else (let upload_parts = get_parts_queryset_by_upload_id_obj_id w 0;
                (ys, w1) = clear_parts_cache_iter env upload_parts True w;
                (err, w2) = abort_clear_loop env (length upload_parts) ys w1
            in if err then (ErrorResponse S3InternalError [], w2)
               else (let (ok, w3) = upload_safe_delete w2
                     in if ok then (NoContent, w3)
                        else (ErrorResponse S3InternalError [], w3))))"

subsection \<open>get_upload_parts_and_validate\<close>

text \<open>\<open>str(n)\<close> for a natural number.\<close>

fun str_nat :: "nat \<Rightarrow> string" where
  "str_nat n =
     (if n < 10 then [char_of (48 + n)] else str_nat (n div 10) @ [char_of (48 + n mod 10)])"

text \<open>
  The completion request: \<open>complete_parts\<close> maps a part number to what the client sent
  for it (its ETag when it sent one), \<open>complete_numbers\<close> lists the part numbers, and
  location, bucket name and key go into the result document.
\<close>

record complete_request =
  complete_parts :: "(nat \<times> string option) list"
  complete_numbers :: "nat list"
  location :: string
  bucket_name :: string
  obj_key :: string

text \<open>
  The loop over the stored parts. \<open>used\<close> is the dictionary \<open>used_upload_parts\<close> in
  insertion order, \<open>md5s\<close> what the ETag handler was fed.
\<close>

fun validate_parts ::
  "handler_env \<Rightarrow> (nat \<times> string option) list \<Rightarrow> nat list \<Rightarrow> nat \<Rightarrow> part list \<Rightarrow>
   (nat \<times> part) list \<Rightarrow> part list \<Rightarrow> string list \<Rightarrow>
   ((nat \<times> part) list \<times> part list \<times> string list) result" where
  "validate_parts env cparts cnumbers last_part_number [] used unused md5s =
     Inr (used, unused, md5s)"
| "validate_parts env cparts cnumbers last_part_number (p # ps) used unused md5s =
     (let num = part_num p in
      if num \<in> set cnumbers
      then (case map_of cparts num of
              None \<Rightarrow> Inl KeyError
            | Some c_part \<Rightarrow>
                if part_size p < MULTIPART_UPLOAD_MIN_SIZE env \<and> num \<noteq> last_part_number
                then Inl (S3Error S3EntityTooSmall [])
                else (case c_part of
                        None \<Rightarrow>
                          Inl (raised_with_extend_msg S3InvalidPart (''PartNumber='' @ str_nat num))
                      | Some etag \<Rightarrow>
                          if strip_char CHR 0x22 etag \<noteq> part_md5 p
                          then Inl (raised_with_extend_msg S3InvalidPart
                                      (''PartNumber='' @ str_nat num))
                          else validate_parts env cparts cnumbers last_part_number ps
                                 (AList.update num p used) unused (md5s @ [part_md5 p])))
      else validate_parts env cparts cnumbers last_part_number ps used (unused @ [p]) md5s)"

definition get_upload_parts_and_validate ::
  "handler_env \<Rightarrow> part list \<Rightarrow> (nat \<times> string option) list \<Rightarrow> nat list \<Rightarrow>
   ((nat \<times> part) list \<times> part list \<times> string) result" where
  "get_upload_parts_and_validate env upload_parts cparts cnumbers =
     (if cnumbers = [] then Inl IndexError
      else (case validate_parts env cparts cnumbers (last cnumbers) upload_parts [] [] [] of
              Inl e \<Rightarrow> Inl e
            | Inr (used, unused, md5s) \<Rightarrow>
                (let obj_parts_count = length used in
                 if obj_parts_count \<noteq> length cparts then Inl (S3Error S3InvalidPart [])
                 else Inr (used, unused,
                           [CHR 0x22] @ multipart_etag_hex env md5s @ ''-'' @
                           str_nat obj_parts_count @ [CHR 0x22]))))"

subsection \<open>save_part_to_object_iter\<close>

text \<open>
  The generator that writes one part into the object, run until its consumer stops
  reading: the number of keep-alive markers it yields, then either \<open>True\<close> (with the data
  fed to the MD5 handler) or the exception that ends the combine. A write that fails
  twice evaluates \<open>S3InternalError(extend_msg=msg)\<close>; a failing \<open>part.save\<close> yields
  \<open>S3InternalError()\<close>, which the consumer raises.
\<close>

fun save_blocks ::
  "handler_env \<Rightarrow> string list \<Rightarrow> nat \<Rightarrow> string \<Rightarrow> rat \<Rightarrow> nat \<Rightarrow> world \<Rightarrow>
   nat \<times> (exn + string) \<times> world" where
  "save_blocks env [] offset md5_data start_time n w = (n, Inr md5_data, w)"
| "save_blocks env (data # rest) offset md5_data start_time n w =
     (if data = [] then (n, Inr md5_data, w)
      else (let (ok1, w1) = obj_rados_write offset data w;
                (ok, w2) = (if \<not> ok1 then obj_rados_write offset data w1 else (ok1, w1))
            in if \<not> ok then (n, Inl (raised_with_extend_msg S3InternalError []), w2)
               else (let md5_data' = md5_data @ data;
                         offset' = offset + length data;
                         (now_time, w3) = time_time env w2
                     in if now_time - start_time < 10
                        then save_blocks env rest offset' md5_data' now_time n w3
                        else save_blocks env rest offset' md5_data' start_time (n + 1) w3)))"

definition save_part_to_object_iter ::
  "handler_env \<Rightarrow> nat \<Rightarrow> part \<Rightarrow> string \<Rightarrow> string \<Rightarrow> nat \<Rightarrow> world \<Rightarrow>
   nat \<times> (exn + string) \<times> world" where
  "save_part_to_object_iter env offset p md5_data obj_etag_v parts_count_v w =
     (let p' = p\<lparr>obj_offset := offset, obj_etag := obj_etag_v, obj_id := dest_obj_id env,
                  parts_count := parts_count_v\<rparr>;
          (start_time, w0) = time_time env w;
          (n, r, w1) = save_blocks env (part_blocks w0 (part_num p)) offset md5_data start_time 0 w0
      in case r of
           Inl e \<Rightarrow> (n, Inl e, w1)
         | Inr md5_data' \<Rightarrow>
             (let (ok, w2) = part_save p' w1
              in if \<not> ok then (n, Inl (S3Error S3InternalError []), w2)
                 else (n, Inr md5_data', w2)))"

subsection \<open>complete_iter\<close>

text \<open>The output so far and the local \<open>yielded_doctype\<close>; one keep-alive emission.\<close>

type_synonym stream = "chunk list \<times> bool"

definition emit :: "stream \<Rightarrow> stream" where
  "emit st =
     (case st of (out, yielded_doctype) \<Rightarrow>
        if \<not> yielded_doctype then (out @ [XmlDeclaration], True)
        else (out @ [WhiteSpace], yielded_doctype))"

fun emit_times :: "nat \<Rightarrow> stream \<Rightarrow> stream" where
  "emit_times 0 st = st"
| "emit_times (Suc n) st = emit_times n (emit st)"

text \<open>One emission for every \<open>None\<close> among the values a cleanup generator yields.\<close>

fun emit_markers :: "part list option list \<Rightarrow> stream \<Rightarrow> stream" where
  "emit_markers [] st = st"
| "emit_markers (None # ys) st = emit_markers ys (emit st)"
| "emit_markers (Some failed # ys) st = emit_markers ys st"

text \<open>
  The loop over \<open>complete_numbers\<close>: the offset and the data fed to the MD5 handler when
  it ends, or the exception that leaves the \<open>try\<close> block.
\<close>

fun combine_loop ::
  "handler_env \<Rightarrow> nat list \<Rightarrow> (nat \<times> part) list \<Rightarrow> string \<Rightarrow> nat \<Rightarrow> nat \<Rightarrow> string \<Rightarrow> rat \<Rightarrow>
   stream \<Rightarrow> world \<Rightarrow> (exn + nat \<times> string) \<times> stream \<times> world" where
  "combine_loop env [] used obj_etag_v parts_count_v offset md5_data start_time st w =
     (Inr (offset, md5_data), st, w)"
| "combine_loop env (num # nums) used obj_etag_v parts_count_v offset md5_data start_time st w =
     (case map_of used num of
        None \<Rightarrow> (Inl KeyError, st, w)
      | Some p \<Rightarrow>
          (let (n, r, w1) = save_part_to_object_iter env offset p md5_data obj_etag_v parts_count_v w;
               st1 = emit_times n st
           in case r of
                Inl e \<Rightarrow> (Inl e, st1, w1)
              | Inr md5_data' \<Rightarrow>
                  (let offset' = offset + part_size p;
                       (now_time, w2) = time_time env w1
                   in if now_time - start_time < 10
                      then combine_loop env nums used obj_etag_v parts_count_v offset' md5_data'
                             now_time st1 w2
                      else combine_loop env nums used obj_etag_v parts_count_v offset' md5_data'
                             start_time (emit st1) w2)))"

text \<open>\<open>update_obj_metedata\<close>: the object's metadata row is saved, or not.\<close>

definition update_obj_metedata :: "nat \<Rightarrow> string \<Rightarrow> world \<Rightarrow> bool \<times> world" where
  "update_obj_metedata sz hex_md5 w =
     (let (ok, w1) = store_call ObjSave 0 w
      in (ok, if ok then w1\<lparr>obj_si := sz, obj_md5 := hex_md5\<rparr> else w1))"

text \<open>The \<open>try\<close> block of \<open>complete_iter\<close> up to its last \<open>yield\<close>.\<close>

definition complete_try ::
  "handler_env \<Rightarrow> complete_request \<Rightarrow> (nat \<times> part) list \<Rightarrow> part list \<Rightarrow> string \<Rightarrow> rat \<Rightarrow>
   world \<Rightarrow> (exn + unit) \<times> stream \<times> world" where
  "complete_try env creq used unused obj_etag_v start_time w =
     (let (r, st1, w1) =
            combine_loop env (complete_numbers creq) used obj_etag_v
              (length (complete_numbers creq)) 0 [] start_time ([], False) w
      in case r of
           Inl e \<Rightarrow> (Inl e, st1, w1)
         | Inr (offset, md5_data) \<Rightarrow>
             (let (ok, w2) = update_obj_metedata offset (md5_hexdigest env md5_data) w1
              in if \<not> ok
                 then (Inl (raised_with_extend_msg S3InternalError
                              ''update object metadata error.''), st1, w2)
                 else (let (ys1, w3) = clear_parts_cache_iter env unused True w2;
                           st2 = emit_markers ys1 st1;
                           (ys2, w4) = clear_parts_cache_iter env (map snd used) False w3;
                           st3 = emit_markers ys2 st2;
                           (ok1, w5) = upload_safe_delete w4;
                           w7 = (if \<not> ok1
                                 then (let (ok2, w6) = upload_safe_delete w5
                                       in if \<not> ok2 then set_completed w6 else w6)
                                 else w5)
                       in (Inr (), st3, w7))))"

text \<open>
  \<open>complete_iter\<close>, run to its end: everything it yields and the state it leaves. Both
  \<open>except\<close> clauses set the session back to uploading and end with an error document.
\<close>

definition complete_iter ::
  "handler_env \<Rightarrow> complete_request \<Rightarrow> (nat \<times> part) list \<Rightarrow> part list \<Rightarrow> string \<Rightarrow> world \<Rightarrow>
   chunk list \<times> world" where
  "complete_iter env creq used unused obj_etag_v w =
     (let (start_time, w0) = time_time env w;
          (r, st, w1) = complete_try env creq used unused obj_etag_v start_time w0
      in case r of
           Inr u \<Rightarrow>
             (fst st @ [ResultXml (\<not> snd st) (location creq) (bucket_name creq) (obj_key creq)
                          obj_etag_v], w1)
         | Inl (S3Error c m) \<Rightarrow> (fst st @ [ErrorXml (\<not> snd st) c m], set_uploading w1)
         | Inl e \<Rightarrow> (fst st @ [ErrorXml (\<not> snd st) S3InternalError []], set_uploading w1))"

subsection \<open>complete_multipart_upload_handle\<close>

text \<open>
  The handler: a response, or the exception that leaves it, and the state it leaves. The
  streamed response is run to its end.
\<close>

definition complete_multipart_upload_handle ::
  "handler_env \<Rightarrow> complete_request \<Rightarrow> world \<Rightarrow> response result \<times> world" where
  "complete_multipart_upload_handle env creq w =
     (if is_completed w
      then (let (ok, w1) = upload_safe_delete w in (Inr (ErrorResponse S3NoSuchUpload []), w1))
      else if is_composing w
      then (Inr (ErrorResponse S3CompleteMultipartAlreadyInProgress []), w)
      else (let (ok, w1) = set_composing w in
            if \<not> ok then (Inr (ErrorResponse S3InternalError []), w1)
            else (let (created, w2) = get_or_create_obj w1 in
                  case (if \<not> created \<and> obj_si w2 \<noteq> 0
                        then (case pre_reset_upload env w2 of
                                (Inl exc, w3) \<Rightarrow> Inl (exc, w3)
                              | (Inr u, w3) \<Rightarrow> Inr w3)
                        else Inr w2) of
                    Inl (exc, w3) \<Rightarrow>
                      (Inr (ErrorResponse S3InvalidRequest
                              (''reset object error, '' @ str_exc exc)), w3)
                  | Inr w3 \<Rightarrow>
                      (case get_upload_parts_and_validate env (get_parts_queryset_by_upload_id w3)
                              (complete_parts creq)
                              (complete_numbers creq) of
                         Inl e \<Rightarrow> (Inl e, w3)
                       | Inr (used, unused, obj_etag_v) \<Rightarrow>
                           (let (chunks, w4) = complete_iter env creq used unused obj_etag_v w3
                            in (Inr (IterResponse chunks), w4))))))"

section \<open>Concrete requests and states\<close>

text \<open>
  The inputs at which the theorems below are instantiated. The credential store holds one
  active key, \<open>AKID\<close>; the stand-ins for the hash functions only shorten their input.
\<close>

definition ex_key :: auth_key where
  "ex_key = \<lparr>key_id = ''AKID'', secret_key = ''secret'',
              key_user = \<lparr>username = ''alice'', is_active = True\<rparr>, is_key_active = True\<rparr>"

definition ex_auth_env :: auth_env where
  "ex_auth_env =
     \<lparr>utf8_valid = (\<lambda>s. True), strptime_gmt = (\<lambda>s. None),
      strptime_sigv4 = (\<lambda>s. length s = 16), sha256_digest = (\<lambda>s. take 2 s),
      hmac_sha256 = (\<lambda>k m. take 1 k @ take 1 m), int_parses = (\<lambda>s. True),
      find_auth_key = (\<lambda>a. if a = ''AKID'' then Some ex_key else None)\<rparr>"

definition ex_request :: "(string \<times> string) list \<Rightarrow> (string \<times> string) list \<Rightarrow> request" where
  "ex_request hs qs =
     \<lparr>req_method = ''GET'', req_path = ''/bucket/key'', query_params = qs, req_headers = hs\<rparr>"

text \<open>A presigned URL's query: every signed-query parameter, well formed.\<close>

definition ex_presigned_query :: "(string \<times> string) list" where
  "ex_presigned_query =
     [(''X-Amz-Algorithm'', ''AWS4-HMAC-SHA256''),
      (''X-Amz-Credential'', ''AKID/20200101/us-east-1/s3/aws4_request''),
      (''X-Amz-Date'', ''20200101T000000Z''),
      (''X-Amz-Expires'', ''3600''),
      (''X-Amz-SignedHeaders'', ''host''),
      (''X-Amz-Signature'', ''abcdef'')]"

text \<open>
  The condition under which \<open>get_credentials_from_header\<close> returns \<open>None\<close>: no
  Authorization header (or an empty one), or a first word other than the scheme keyword.
\<close>

definition no_auth_scheme :: "request \<Rightarrow> bool" where
  "no_auth_scheme request =
     (let auth = split_ws1 (get_authorization_header request)
      in auth = [] \<or> py_lower (hd auth) \<noteq> py_lower AWS4_HMAC_SHA256)"

text \<open>The names the header parser accepts.\<close>

definition auth_names :: "string set" where
  "auth_names = {''Credential'', ''SignedHeaders'', ''Signature''}"

text \<open>Header credentials for the key \<open>AKID\<close>, with a five-field credential string.\<close>

definition ex_creds :: "string \<Rightarrow> (string \<times> string) list" where
  "ex_creds sig =
     [(''Credential'', ''AKID/20200101/us-east-1/s3/aws4_request''),
      (''SignedHeaders'', ''host''), (''Signature'', sig)]"

text \<open>An Authorization header whose credential string has four fields.\<close>

definition ex_four_field_header :: "(string \<times> string) list" where
  "ex_four_field_header =
     [(''Authorization'',
       ''AWS4-HMAC-SHA256 Credential=AKID/20200101/us-east-1/s3,SignedHeaders=host,Signature=abcdef''),
      (''Host'', ''h'')]"

text \<open>
  Part rows, the handlers' surroundings (identity stand-ins for the MD5 helpers), a session
  in the uploading state whose destination object exists with the given bytes, and a
  completion request for parts 1 and 2 (the first ETag quoted, as clients send it).
\<close>

definition ex_part :: "nat \<Rightarrow> nat \<Rightarrow> string \<Rightarrow> part" where
  "ex_part n sz m =
     \<lparr>part_num = n, part_size = sz, part_md5 = m, obj_offset = 0, obj_etag = [], obj_id = 0,
      parts_count = 0\<rparr>"

definition ex_handler_env :: "(nat \<Rightarrow> rat) \<Rightarrow> nat \<Rightarrow> handler_env" where
  "ex_handler_env clk min_size =
     \<lparr>clock = clk, md5_hexdigest = (\<lambda>s. s), multipart_etag_hex = concat,
      MULTIPART_UPLOAD_MIN_SIZE = min_size, dest_obj_id = 7, reset_exc_text = ''rados error''\<rparr>"

definition ex_world :: "string \<Rightarrow> part list \<Rightarrow> (store_op \<Rightarrow> bool list) \<Rightarrow> world" where
  "ex_world bytes ps scr =
     \<lparr>upload_status = Some Uploading, obj_exists = True, obj_si = length bytes,
      obj_md5 = ''md5'', obj_bytes = bytes, parts_db = ps, part_blocks = (\<lambda>n. [''ab'']),
      script = scr, ticks = 0, events = []\<rparr>"

definition ex_complete_request :: complete_request where
  "ex_complete_request =
     \<lparr>complete_parts = [(1, Some ([CHR 0x22] @ ''m1'' @ [CHR 0x22])), (2, Some ''m2'')],
      complete_numbers = [1, 2], location = ''http://h/bucket/key'', bucket_name = ''bucket'',
      obj_key = ''key''\<rparr>"

text \<open>The two parts of the 4 MiB and 1 KiB example, and up to seven two-byte parts.\<close>

definition ex_two_parts :: "part list" where
  "ex_two_parts = [ex_part 1 (4 * 1024 ^ 2) ''m1'', ex_part 2 1024 ''m2'']"

definition ex_small_parts :: "nat \<Rightarrow> part list" where
  "ex_small_parts n =
     take n [ex_part 1 2 ''m1'', ex_part 2 2 ''m2'', ex_part 3 2 ''m3'', ex_part 4 2 ''m4'',
             ex_part 5 2 ''m5'', ex_part 6 2 ''m6'', ex_part 7 2 ''m7'']"

text \<open>Coming outcomes: the given ones for one store operation, success for the others.\<close>

definition fail_script :: "store_op \<Rightarrow> bool list \<Rightarrow> store_op \<Rightarrow> bool list" where
  "fail_script oper outcomes = (\<lambda>x. if x = oper then outcomes else [])"

text \<open>A run of values yielded by a cleanup generator: markers, then one list, last.\<close>

fun markers_then_list :: "'a option list \<Rightarrow> bool" where
  "markers_then_list [] = False"
| "markers_then_list (None # ys) = markers_then_list ys"
| "markers_then_list (Some f # ys) = (ys = [])"

section \<open>Properties of the authenticator\<close>

lemma split_sep_notin: "c \<notin> set s \<Longrightarrow> split_sep c s = [s]"
  by (induction s) auto

lemma split_sep_append: "c \<notin> set a \<Longrightarrow> split_sep c (a @ c # b) = a # split_sep c b"
  by (induction a) (auto split: list.splits)

lemma split_sep1_append: "c \<notin> set a \<Longrightarrow> split_sep1 c (a @ c # b) = [a, b]"
  by (induction a) (auto simp: split_sep1_def)

lemma dropWhile_eq_notin: "c \<notin> set s \<Longrightarrow> dropWhile (\<lambda>x. x = c) s = s"
  by (cases s) auto

lemma strip_char_notin: "c \<notin> set s \<Longrightarrow> strip_char c s = s"
  by (simp add: strip_char_def dropWhile_eq_notin)

lemma header_credentials_none:
  "no_auth_scheme request \<Longrightarrow> get_credentials_from_header env request = Inr (None, None)"
  by (auto simp: no_auth_scheme_def get_credentials_from_header_def Let_def)

text \<open>
  C1. The claim: a request whose Authorization header is absent or lacks the scheme
  keyword has its credentials extracted from the signed query parameters, a wrong
  algorithm fails at once, and the query credentials go to signature verification.
  The code: \<open>authenticate\<close> calls \<open>get_timestamp_from_query\<close>, not
  \<open>get_credentials_from_query\<close>. For every such request the value of \<open>credentials\<close>
  is the timestamp string, and \<open>authenticate_credentials\<close> fails on it with
  \<open>AttributeError\<close> (or \<open>strptime\<close> has raised \<open>ValueError\<close> before); the algorithm
  parameter is never read and no query credential reaches the verification.
\<close>

theorem authenticate_without_header_ignores_query_credentials:
  assumes "no_auth_scheme request"
  shows "authenticate env request =
           (case get_timestamp_from_query env request of
              Inl e \<Rightarrow> Inl e
            | Inr t \<Rightarrow> Inl AttributeError)"
  using header_credentials_none[OF assms, of env]
  by (simp add: authenticate_def authenticate_credentials_def split: sum.splits)

lemma ex_presigned_no_auth_scheme:
  "no_auth_scheme (ex_request [(''Host'', ''h'')] ex_presigned_query)"
  by code_simp

lemma ex_presigned_timestamp:
  "get_timestamp_from_query ex_auth_env (ex_request [(''Host'', ''h'')] ex_presigned_query) =
     Inr ''20200101T000000Z''"
  by code_simp

text \<open>
  At a well-formed presigned request \<open>get_credentials_from_query\<close> would return the
  three credentials, and \<open>authenticate\<close> raises \<open>AttributeError\<close>.
\<close>

theorem authenticate_presigned_request_raises:
  "no_auth_scheme (ex_request [(''Host'', ''h'')] ex_presigned_query) \<and>
   authenticate ex_auth_env (ex_request [(''Host'', ''h'')] ex_presigned_query) =
     Inl AttributeError"
  using authenticate_without_header_ignores_query_credentials
          [OF ex_presigned_no_auth_scheme, of ex_auth_env]
        ex_presigned_no_auth_scheme ex_presigned_timestamp
  by simp

lemma query_credentials_of_presigned_request:
  "get_credentials_from_query ex_auth_env (ex_request [(''Host'', ''h'')] ex_presigned_query) =
     Inr (Some (CredDict [(''Credential'', ''AKID/20200101/us-east-1/s3/aws4_request''),
                          (''SignedHeaders'', ''host''),
                          (''Signature'', ''abcdef'')]),
          Some ''20200101T000000Z'')"
  by code_simp

text \<open>
  C8. For every request that reaches signature verification (a five-field credential
  string, a known and active key of an active user), every exception raised while the
  canonical request, the string to sign or the signature is built ends as the one
  malformed-authorization error; a computed signature different from the supplied one
  (or no supplied one) gives the same error; and no outcome is the signature-mismatch
  error.
\<close>

theorem signature_verification_coalesces_errors:
  assumes cred: "map_of d ''Credential'' = Some cred"
      and five: "length (split_sep CHR ''/'' cred) = 5"
      and key: "find_auth_key env (split_sep CHR ''/'' cred ! 0) = Some k"
      and active: "is_active (key_user k)" "is_key_active k"
  shows "authenticate_credentials env request ts (CredDict d) =
           (case signature_pipeline env request ts cred (split_sep CHR ''/'' cred ! 2)
                   (split_sep CHR ''/'' cred ! 3) (map_of d ''SignedHeaders'') (secret_key k) of
              Inl e \<Rightarrow> Inl (S3Error S3AuthorizationHeaderMalformed [])
            | Inr sig \<Rightarrow>
                if map_of d ''Signature'' = Some sig then Inr (key_user k, k)
                else Inl (S3Error S3AuthorizationHeaderMalformed [])) \<and>
         (\<forall>m. authenticate_credentials env request ts (CredDict d) \<noteq>
                Inl (S3Error S3SignatureDoesNotMatch m))"
  using assms
  by (auto simp: authenticate_credentials_def generate_signature_def malformed_def Let_def
      split: sum.splits)

text \<open>A request without the payload-hash header makes the pipeline raise.\<close>

lemma missing_payload_hash_raises:
  "headers_get request ''X-Amz-Content-SHA256'' = None \<Longrightarrow>
   \<exists>e. signature_pipeline env request ts cred r s sh key = Inl e"
  by (auto simp: signature_pipeline_def canonical_request_def split: sum.splits option.splits)

lemma ex_creds_reach:
  "map_of (ex_creds sig) ''Credential'' = Some ''AKID/20200101/us-east-1/s3/aws4_request''"
  "length (split_sep CHR ''/'' ''AKID/20200101/us-east-1/s3/aws4_request'') = 5"
  "find_auth_key ex_auth_env (split_sep CHR ''/'' ''AKID/20200101/us-east-1/s3/aws4_request'' ! 0) =
     Some ex_key"
  "is_active (key_user ex_key)" "is_key_active ex_key"
  by (simp_all add: ex_creds_def ex_auth_env_def ex_key_def)

lemma ex_pipeline_missing_hash:
  "signature_pipeline ex_auth_env (ex_request [(''Host'', ''h'')] []) (Some ''20200101T000000Z'')
     ''AKID/20200101/us-east-1/s3/aws4_request''
     (split_sep CHR ''/'' ''AKID/20200101/us-east-1/s3/aws4_request'' ! 2)
     (split_sep CHR ''/'' ''AKID/20200101/us-east-1/s3/aws4_request'' ! 3)
     (map_of (ex_creds ''4141'') ''SignedHeaders'') (secret_key ex_key) = Inl KeyError"
  by code_simp

lemma ex_pipeline_signature:
  "signature_pipeline ex_auth_env
     (ex_request [(''Host'', ''h''), (''X-Amz-Content-SHA256'', ''UNSIGNED-PAYLOAD'')] [])
     (Some ''20200101T000000Z'')
     ''AKID/20200101/us-east-1/s3/aws4_request''
     (split_sep CHR ''/'' ''AKID/20200101/us-east-1/s3/aws4_request'' ! 2)
     (split_sep CHR ''/'' ''AKID/20200101/us-east-1/s3/aws4_request'' ! 3)
     (map_of (ex_creds sig) ''SignedHeaders'') (secret_key ex_key) = Inr ''4141''"
  unfolding ex_creds_def by code_simp

text \<open>
  Three requests for the key \<open>AKID\<close>: without the payload-hash header (the pipeline
  raises \<open>KeyError\<close>), with a wrong signature, and with the signature the pipeline computes.
\<close>

theorem signature_verification_examples:
  "authenticate_credentials ex_auth_env (ex_request [(''Host'', ''h'')] [])
     (Some ''20200101T000000Z'') (CredDict (ex_creds ''4141'')) =
     Inl (S3Error S3AuthorizationHeaderMalformed []) \<and>
   authenticate_credentials ex_auth_env
     (ex_request [(''Host'', ''h''), (''X-Amz-Content-SHA256'', ''UNSIGNED-PAYLOAD'')] [])
     (Some ''20200101T000000Z'') (CredDict (ex_creds ''abcdef'')) =
     Inl (S3Error S3AuthorizationHeaderMalformed []) \<and>
   authenticate_credentials ex_auth_env
     (ex_request [(''Host'', ''h''), (''X-Amz-Content-SHA256'', ''UNSIGNED-PAYLOAD'')] [])
     (Some ''20200101T000000Z'') (CredDict (ex_creds ''4141'')) =
     Inr (key_user ex_key, ex_key)"
  using signature_verification_coalesces_errors
          [where d = "ex_creds ''4141''" and request = "ex_request [(''Host'', ''h'')] []"
             and ts = "Some ''20200101T000000Z''", OF ex_creds_reach]
        signature_verification_coalesces_errors
          [where d = "ex_creds ''abcdef''"
             and request = "ex_request [(''Host'', ''h''),
                              (''X-Amz-Content-SHA256'', ''UNSIGNED-PAYLOAD'')] []"
             and ts = "Some ''20200101T000000Z''", OF ex_creds_reach]
        signature_verification_coalesces_errors
          [where d = "ex_creds ''4141''"
             and request = "ex_request [(''Host'', ''h''),
                              (''X-Amz-Content-SHA256'', ''UNSIGNED-PAYLOAD'')] []"
             and ts = "Some ''20200101T000000Z''", OF ex_creds_reach]
        ex_pipeline_missing_hash ex_pipeline_signature[of "''abcdef''"]
        ex_pipeline_signature[of "''4141''"]
  by (simp add: ex_creds_def)

text \<open>
  C9. The claim: a credential string that does not split into exactly five fields makes
  authentication fail with an authentication error, not with a raw exception. The code:
  the five-way unpacking of \<open>credential.split('/')\<close> stands outside every \<open>try\<close>, so for
  every such credential string \<open>authenticate_credentials\<close> raises \<open>ValueError\<close>, which is
  no \<open>S3Error\<close>.
\<close>

theorem credential_arity_raises_ValueError:
  assumes "map_of d ''Credential'' = Some cred"
      and "length (split_sep CHR ''/'' cred) \<noteq> 5"
  shows "authenticate_credentials env request ts (CredDict d) = Inl ValueError \<and>
         \<not> is_S3Error ValueError"
  using assms by (simp add: authenticate_credentials_def Let_def)

lemma ex_four_field_parse:
  "get_credentials_from_header ex_auth_env (ex_request ex_four_field_header []) =
     Inr (Some (CredDict [(''Credential'', ''AKID/20200101/us-east-1/s3''),
                          (''SignedHeaders'', ''host''), (''Signature'', ''abcdef'')]),
          Some [])"
  by code_simp

text \<open>The whole of \<open>authenticate\<close> at a header whose credential has four fields.\<close>

theorem four_field_credential_raises_ValueError:
  "length (split_sep CHR ''/'' ''AKID/20200101/us-east-1/s3'') = 4 \<and>
   authenticate ex_auth_env (ex_request ex_four_field_header []) = Inl ValueError"
  using credential_arity_raises_ValueError
          [of "[(''Credential'', ''AKID/20200101/us-east-1/s3''),
                (''SignedHeaders'', ''host''), (''Signature'', ''abcdef'')]"
              "''AKID/20200101/us-east-1/s3''" ex_auth_env
              "ex_request ex_four_field_header []" "Some []"]
        ex_four_field_parse
  by (simp add: authenticate_def)

lemma auth_name_chars:
  "n \<in> auth_names \<Longrightarrow> CHR '','' \<notin> set n \<and> CHR ''='' \<notin> set n \<and> CHR '' '' \<notin> set n"
  by (auto simp: auth_names_def)

lemma parse_auth_pairs_step:
  assumes "n \<in> auth_names" "CHR '' '' \<notin> set v"
  shows "parse_auth_pairs ((n @ CHR ''='' # v) # rest) ret =
           parse_auth_pairs rest (AList.update n v ret)"
proof -
  have sp: "strip_char CHR '' '' (n @ CHR ''='' # v) = n @ CHR ''='' # v"
    using assms auth_name_chars[OF assms(1)] by (intro strip_char_notin) auto
  have s1: "split_sep1 CHR ''='' (n @ CHR ''='' # v) = [n, v]"
    using auth_name_chars[OF assms(1)] by (intro split_sep1_append) auto
  have mem: "n \<in> set [''Credential'', ''SignedHeaders'', ''Signature'']"
    using assms(1) by (simp add: auth_names_def)
  show ?thesis using mem by (simp add: sp s1 del: set_simps)
qed

lemma split_three:
  assumes "CHR '','' \<notin> set a" "CHR '','' \<notin> set b" "CHR '','' \<notin> set c"
  shows "split_sep CHR '','' (a @ CHR '','' # b @ CHR '','' # c) = [a, b, c]"
  using assms by (simp add: split_sep_append split_sep_notin)

text \<open>
  C10, as amended. The header parser accepts any three comma-separated Name=Value pairs
  whose names are among Credential, SignedHeaders and Signature (the values holding no
  comma and no space), distinct or not, and returns the dictionary of the last value of
  each name. When none of the three names is Credential, the verification step reads
  \<open>None\<close> for the credential and raises \<open>AttributeError\<close> from \<open>None.split\<close>: an unhandled
  exception, not an authentication error.
\<close>

theorem parser_accepts_repeated_names:
  assumes names: "n1 \<in> auth_names" "n2 \<in> auth_names" "n3 \<in> auth_names"
      and commas: "CHR '','' \<notin> set (v1 @ v2 @ v3)"
      and spaces: "CHR '' '' \<notin> set (v1 @ v2 @ v3)"
  shows "parse_auth_key_string
           (n1 @ ''='' @ v1 @ '','' @ n2 @ ''='' @ v2 @ '','' @ n3 @ ''='' @ v3) =
           Inr (AList.update n3 v3 (AList.update n2 v2 (AList.update n1 v1 []))) \<and>
         (''Credential'' \<notin> {n1, n2, n3} \<longrightarrow>
            authenticate_credentials env request ts
              (CredDict (AList.update n3 v3 (AList.update n2 v2 (AList.update n1 v1 [])))) =
              Inl AttributeError)"
proof
  have sp: "split_sep CHR '',''
              ((n1 @ CHR ''='' # v1) @ CHR '','' # (n2 @ CHR ''='' # v2) @ CHR '','' #
               (n3 @ CHR ''='' # v3)) =
            [n1 @ CHR ''='' # v1, n2 @ CHR ''='' # v2, n3 @ CHR ''='' # v3]"
    using commas auth_name_chars[OF names(1)] auth_name_chars[OF names(2)]
      auth_name_chars[OF names(3)]
    by (intro split_three) auto
  have v: "CHR '' '' \<notin> set v1" "CHR '' '' \<notin> set v2" "CHR '' '' \<notin> set v3"
    using spaces by auto
  have "parse_auth_key_string
          (n1 @ ''='' @ v1 @ '','' @ n2 @ ''='' @ v2 @ '','' @ n3 @ ''='' @ v3) =
        parse_auth_pairs [n1 @ CHR ''='' # v1, n2 @ CHR ''='' # v2, n3 @ CHR ''='' # v3] []"
    using sp by (simp add: parse_auth_key_string_def del: parse_auth_pairs.simps)
  also have "\<dots> = parse_auth_pairs [n2 @ CHR ''='' # v2, n3 @ CHR ''='' # v3]
                      (AList.update n1 v1 [])"
    by (rule parse_auth_pairs_step[OF names(1) v(1)])
  also have "\<dots> = parse_auth_pairs [n3 @ CHR ''='' # v3]
                      (AList.update n2 v2 (AList.update n1 v1 []))"
    by (rule parse_auth_pairs_step[OF names(2) v(2)])
  also have "\<dots> = parse_auth_pairs []
                      (AList.update n3 v3 (AList.update n2 v2 (AList.update n1 v1 [])))"
    by (rule parse_auth_pairs_step[OF names(3) v(3)])
  finally show "parse_auth_key_string
           (n1 @ ''='' @ v1 @ '','' @ n2 @ ''='' @ v2 @ '','' @ n3 @ ''='' @ v3) =
           Inr (AList.update n3 v3 (AList.update n2 v2 (AList.update n1 v1 [])))"
    by (simp del: AList.update.simps)
  show "''Credential'' \<notin> {n1, n2, n3} \<longrightarrow>
            authenticate_credentials env request ts
              (CredDict (AList.update n3 v3 (AList.update n2 v2 (AList.update n1 v1 [])))) =
              Inl AttributeError"
    by (auto simp: authenticate_credentials_def update_conv')
qed

text \<open>
  The claim's own example: parsing succeeds and leaves SignedHeaders and Signature
  absent, but the credential \<open>c\<close> is present, so nothing missing is dereferenced: the
  unhandled exception is the \<open>ValueError\<close> of unpacking a one-field credential.
\<close>

theorem repeated_Credential_raises_ValueError:
  "parse_auth_key_string ''Credential=a,Credential=b,Credential=c'' =
     Inr [(''Credential'', ''c'')] \<and>
   map_of [(''Credential'', ''c'')] ''SignedHeaders'' = None \<and>
   map_of [(''Credential'', ''c'')] ''Signature'' = None \<and>
   authenticate ex_auth_env
     (ex_request
        [(''Authorization'', ''AWS4-HMAC-SHA256 Credential=a,Credential=b,Credential=c'')] []) =
     Inl ValueError \<and>
   authenticate ex_auth_env
     (ex_request
        [(''Authorization'', ''AWS4-HMAC-SHA256 Credential=a,Credential=b,Credential=c'')] []) \<noteq>
     Inl AttributeError"
  by code_simp

lemma Signature_auth_name: "''Signature'' \<in> auth_names"
  by (simp add: auth_names_def)

text \<open>Three Signature pairs: the credential is missing and \<open>None.split\<close> raises.\<close>

theorem repeated_Signature_raises_AttributeError:
  "parse_auth_key_string ''Signature=a,Signature=b,Signature=c'' = Inr [(''Signature'', ''c'')] \<and>
   authenticate_credentials ex_auth_env (ex_request [] []) (Some [])
     (CredDict [(''Signature'', ''c'')]) = Inl AttributeError"
  using parser_accepts_repeated_names
          [OF Signature_auth_name Signature_auth_name Signature_auth_name,
           of "''a''" "''b''" "''c''" ex_auth_env "ex_request [] []" "Some []"]
  by simp

section \<open>Properties of the multipart upload handlers\<close>

lemmas store_defs = time_time_def store_call_def is_composing_def is_completed_def
  upload_safe_delete_def set_composing_def set_uploading_def set_completed_def
  get_or_create_obj_def pre_reset_upload_def write_at_def obj_rados_write_def
  part_safe_delete_def part_rados_delete_def part_save_def
  get_parts_queryset_by_upload_id_def get_parts_queryset_by_upload_id_obj_id_def

lemmas handler_defs = clear_one_part_def clear_parts_cache_iter_def abort_multipart_upload_def
  get_upload_parts_and_validate_def save_part_to_object_iter_def emit_def
  update_obj_metedata_def complete_try_def complete_iter_def
  complete_multipart_upload_handle_def raised_with_extend_msg_def

lemmas ex_defs = ex_part_def ex_handler_env_def ex_world_def ex_complete_request_def
  ex_two_parts_def ex_small_parts_def fail_script_def MULTIPART_UPLOAD_MIN_SIZE_default_def

lemma str_nat_2: "str_nat 2 = ''2''"
  by code_simp

lemma str_nat_Suc_Suc_0: "str_nat (Suc (Suc 0)) = ''2''"
  using str_nat_2 by (simp only: numeral_2_eq_2)

lemmas eval_simps = store_defs handler_defs ex_defs strip_char_def str_nat_2 str_nat_Suc_Suc_0

subsection \<open>Completion: session state and object bytes when it fails before streaming\<close>

text \<open>
  C2. The claim: a completion that has entered the composing state and then fails, at
  the reset of the destination object, at the validation of the parts or during the
  combine or the cleanup, leaves the session in the uploading state. The code:
  \<open>complete_iter\<close> sets the session back in both of its \<open>except\<close> clauses, but
  \<open>complete_multipart_upload_handle\<close> does not: whenever it returns the invalid-request
  response of a failed reset, or a validation exception leaves it, the session had been
  uploading and is left composing.
\<close>

theorem completion_failure_before_streaming_stays_composing:
  assumes "fst (complete_multipart_upload_handle env creq w) = Inl e \<or>
           fst (complete_multipart_upload_handle env creq w) =
             Inr (ErrorResponse S3InvalidRequest m)"
  shows "upload_status w = Some Uploading \<and>
         upload_status (snd (complete_multipart_upload_handle env creq w)) = Some Composing"
  using assms
  by (auto simp: complete_multipart_upload_handle_def Let_def set_composing_def store_call_def
        get_or_create_obj_def pre_reset_upload_def upload_safe_delete_def
      split: if_splits prod.splits sum.splits)

lemma ex_validation_fails:
  "fst (complete_multipart_upload_handle
          (ex_handler_env (\<lambda>n. 0) MULTIPART_UPLOAD_MIN_SIZE_default) ex_complete_request
          (ex_world ''old'' ex_two_parts (\<lambda>x. []))) = Inl (S3Error S3EntityTooSmall [])"
  by (simp add: eval_simps del: str_nat.simps)

lemma ex_reset_fails:
  "fst (complete_multipart_upload_handle
          (ex_handler_env (\<lambda>n. 0) MULTIPART_UPLOAD_MIN_SIZE_default) ex_complete_request
          (ex_world ''old'' ex_two_parts (fail_script ObjReset [False]))) =
     Inr (ErrorResponse S3InvalidRequest ''reset object error, rados error'')"
  by (simp add: eval_simps del: str_nat.simps)

lemma ex_part_save_fails:
  "fst (complete_multipart_upload_handle (ex_handler_env (\<lambda>n. 0) 1) ex_complete_request
          (ex_world ''old'' (ex_small_parts 2) (fail_script PartSave [False]))) =
     Inr (IterResponse [ErrorXml True S3InternalError []]) \<and>
   upload_status (snd (complete_multipart_upload_handle (ex_handler_env (\<lambda>n. 0) 1)
          ex_complete_request
          (ex_world ''old'' (ex_small_parts 2) (fail_script PartSave [False])))) =
     Some Uploading"
  by (simp add: eval_simps del: str_nat.simps)

text \<open>
  A failed validation (part 1 below the minimum) and a failed reset leave the session
  composing; a \<open>part.save\<close> that fails inside the combine loop sets it back to uploading.
\<close>

theorem completion_failures_leave_composing:
  "upload_status (snd (complete_multipart_upload_handle
          (ex_handler_env (\<lambda>n. 0) MULTIPART_UPLOAD_MIN_SIZE_default) ex_complete_request
          (ex_world ''old'' ex_two_parts (\<lambda>x. [])))) = Some Composing \<and>
   upload_status (snd (complete_multipart_upload_handle
          (ex_handler_env (\<lambda>n. 0) MULTIPART_UPLOAD_MIN_SIZE_default) ex_complete_request
          (ex_world ''old'' ex_two_parts (fail_script ObjReset [False])))) = Some Composing \<and>
   upload_status (snd (complete_multipart_upload_handle (ex_handler_env (\<lambda>n. 0) 1)
          ex_complete_request
          (ex_world ''old'' (ex_small_parts 2) (fail_script PartSave [False])))) =
     Some Uploading"
  using completion_failure_before_streaming_stays_composing
          [of "ex_handler_env (\<lambda>n. 0) MULTIPART_UPLOAD_MIN_SIZE_default" ex_complete_request
              "ex_world ''old'' ex_two_parts (\<lambda>x. [])" "S3Error S3EntityTooSmall []"]
        completion_failure_before_streaming_stays_composing
          [of "ex_handler_env (\<lambda>n. 0) MULTIPART_UPLOAD_MIN_SIZE_default" ex_complete_request
              "ex_world ''old'' ex_two_parts (fail_script ObjReset [False])" _
              "''reset object error, rados error''"]
        ex_validation_fails ex_reset_fails ex_part_save_fails
  by simp

lemma handle_raises_cases:
  "fst (complete_multipart_upload_handle env creq w) = Inl e \<Longrightarrow>
   \<not> is_completed w \<and> \<not> is_composing w \<and> fst (set_composing w) \<and>
   (let w1 = snd (set_composing w); w2 = snd (get_or_create_obj w1);
        w3 = (if obj_exists w \<and> obj_si w \<noteq> 0 then snd (pre_reset_upload env w2) else w2)
    in (obj_exists w \<and> obj_si w \<noteq> 0 \<longrightarrow> fst (pre_reset_upload env w2) = Inr ()) \<and>
       get_upload_parts_and_validate env (parts_db w3) (complete_parts creq)
         (complete_numbers creq) = Inl e \<and>
       snd (complete_multipart_upload_handle env creq w) = w3)"
  by (auto simp: complete_multipart_upload_handle_def Let_def set_composing_def store_call_def
        get_or_create_obj_def get_parts_queryset_by_upload_id_def
      split: if_splits prod.splits sum.splits)

text \<open>
  C3, as amended. When a completion request fails validation (the validation's exception
  leaves the handler), the destination object's backing bytes are unchanged if the
  object existed with size zero, and empty if it was created by the request; an existing
  non-empty object has been reset before the parts were validated, so its bytes are
  empty, not what they were.
\<close>

theorem validation_failure_object_bytes:
  assumes "fst (complete_multipart_upload_handle env creq w) = Inl e"
  shows "get_upload_parts_and_validate env (parts_db w) (complete_parts creq)
           (complete_numbers creq) = Inl e \<and>
         obj_bytes (snd (complete_multipart_upload_handle env creq w)) =
           (if obj_exists w then (if obj_si w \<noteq> 0 then [] else obj_bytes w) else [])"
  using handle_raises_cases[OF assms]
  by (auto simp: Let_def set_composing_def store_call_def get_or_create_obj_def
        pre_reset_upload_def
      split: if_splits prod.splits sum.splits)

text \<open>
  An existing object of three bytes, a request whose part 1 is below the minimum: the
  entity-too-small error is reported and the three bytes are gone.
\<close>

theorem validation_failure_truncates_object:
  "obj_bytes (ex_world ''old'' ex_two_parts (\<lambda>x. [])) = ''old'' \<and>
   fst (complete_multipart_upload_handle
          (ex_handler_env (\<lambda>n. 0) MULTIPART_UPLOAD_MIN_SIZE_default) ex_complete_request
          (ex_world ''old'' ex_two_parts (\<lambda>x. []))) = Inl (S3Error S3EntityTooSmall []) \<and>
   obj_bytes (snd (complete_multipart_upload_handle
          (ex_handler_env (\<lambda>n. 0) MULTIPART_UPLOAD_MIN_SIZE_default) ex_complete_request
          (ex_world ''old'' ex_two_parts (\<lambda>x. [])))) = []"
  by (simp add: eval_simps del: str_nat.simps)

lemma ex_validation_fails_empty_object:
  "fst (complete_multipart_upload_handle
          (ex_handler_env (\<lambda>n. 0) MULTIPART_UPLOAD_MIN_SIZE_default) ex_complete_request
          (ex_world [] ex_two_parts (\<lambda>x. []))) = Inl (S3Error S3EntityTooSmall [])"
  by (simp add: eval_simps del: str_nat.simps)

text \<open>The same request against an existing empty object: no reset, bytes as before.\<close>

theorem validation_failure_keeps_empty_object:
  "get_upload_parts_and_validate (ex_handler_env (\<lambda>n. 0) MULTIPART_UPLOAD_MIN_SIZE_default)
     ex_two_parts (complete_parts ex_complete_request) (complete_numbers ex_complete_request) =
     Inl (S3Error S3EntityTooSmall []) \<and>
   obj_bytes (snd (complete_multipart_upload_handle
          (ex_handler_env (\<lambda>n. 0) MULTIPART_UPLOAD_MIN_SIZE_default) ex_complete_request
          (ex_world [] ex_two_parts (\<lambda>x. [])))) = obj_bytes (ex_world [] ex_two_parts (\<lambda>x. []))"
  using validation_failure_object_bytes[OF ex_validation_fails_empty_object]
  by (simp add: ex_world_def)

subsection \<open>The values a cleanup generator yields\<close>

lemma markers_then_list_replicate:
  "markers_then_list ys \<Longrightarrow> \<exists>n f. ys = replicate n None @ [Some f]"
proof (induction ys rule: markers_then_list.induct)
  case 1
  then show ?case by simp
next
  case (2 ys)
  then obtain n f where "ys = replicate n None @ [Some f]" by auto
  then have "None # ys = replicate (Suc n) None @ [Some f]" by simp
  then show ?case by blast
next
  case (3 f ys)
  then have "Some f # ys = replicate 0 None @ [Some f]" by simp
  then show ?case by blast
qed

lemma clear_parts_loop_markers:
  "markers_then_list (fst (clear_parts_loop env rm ps st failed w))"
proof (induction ps arbitrary: st failed w)
  case Nil
  show ?case by simp
next
  case (Cons p ps)
  obtain f1 t w4 where c: "clear_one_part env rm p failed w = (f1, t, w4)"
    by (cases "clear_one_part env rm p failed w") auto
  show ?case
  proof (cases "t - st < 10")
    case True
    then show ?thesis using Cons.IH[of t f1 w4] by (simp add: c)
  next
    case False
    obtain ys w5 where r: "clear_parts_loop env rm ps st f1 w4 = (ys, w5)"
      by (cases "clear_parts_loop env rm ps st f1 w4") auto
    have "markers_then_list ys" using Cons.IH[of st f1 w4] r by simp
    then show ?thesis using False by (simp add: c r)
  qed
qed

lemma clear_parts_cache_iter_shape:
  "\<exists>n f. fst (clear_parts_cache_iter env ps rm w) = replicate n None @ [Some f]"
  using markers_then_list_replicate[OF clear_parts_loop_markers]
  by (simp add: clear_parts_cache_iter_def split: prod.splits)

lemma yielded_list_unique:
  assumes "Some failed \<in> set (fst (clear_parts_cache_iter env ps rm w))"
  shows "\<exists>n. fst (clear_parts_cache_iter env ps rm w) = replicate n None @ [Some failed]"
proof -
  obtain n f where "fst (clear_parts_cache_iter env ps rm w) = replicate n None @ [Some f]"
    using clear_parts_cache_iter_shape by blast
  with assms show ?thesis by auto
qed

lemma abort_clear_loop_skip:
  "abort_clear_loop env all_len (replicate n None @ ys) w = abort_clear_loop env all_len ys w"
  by (induction n) auto

lemma abort_retry_loop_skip:
  "abort_retry_loop (replicate n None @ ys) = abort_retry_loop ys"
  by (induction n) auto

subsection \<open>Abort and completion: what the callers do with the failed parts\<close>

text \<open>
  C4, as amended. The abort handler applies the majority-failure policy: whenever the
  first cleanup pass over the session's \<open>n\<close> parts reports more than \<open>n div 2\<close> of them
  as failed in metadata deletion, the handler answers with the internal error and the
  state is the one the first pass left, so no retry pass has run. The completion
  handler's cleanup does not apply the policy: once the parts are combined and the
  object's metadata is saved, the \<open>try\<close> block ends without an error whatever the two
  cleanup passes report.
\<close>

theorem cleanup_policy_by_caller:
  "(\<not> is_composing w \<and> \<not> is_completed w \<and>
    Some failed \<in> set (fst (clear_parts_cache_iter env
                               (get_parts_queryset_by_upload_id_obj_id w 0) True w)) \<and>
    length failed > length (get_parts_queryset_by_upload_id_obj_id w 0) div 2 \<longrightarrow>
    abort_multipart_upload env w =
      (ErrorResponse S3InternalError [],
       snd (clear_parts_cache_iter env (get_parts_queryset_by_upload_id_obj_id w 0) True w))) \<and>
   (fst (combine_loop env (complete_numbers creq) used etag (length (complete_numbers creq))
           0 [] start_time ([], False) w') = Inr (off, md) \<and>
    fst (update_obj_metedata off (md5_hexdigest env md)
           (snd (snd (combine_loop env (complete_numbers creq) used etag
                        (length (complete_numbers creq)) 0 [] start_time ([], False) w')))) \<longrightarrow>
    fst (complete_try env creq used unused etag start_time w') = Inr ())"
proof (intro conjI impI)
  assume a: "\<not> is_composing w \<and> \<not> is_completed w \<and>
    Some failed \<in> set (fst (clear_parts_cache_iter env
                               (get_parts_queryset_by_upload_id_obj_id w 0) True w)) \<and>
    length failed > length (get_parts_queryset_by_upload_id_obj_id w 0) div 2"
  obtain ys w1 where first:
    "clear_parts_cache_iter env (get_parts_queryset_by_upload_id_obj_id w 0) True w = (ys, w1)"
    by (cases "clear_parts_cache_iter env (get_parts_queryset_by_upload_id_obj_id w 0) True w")
       auto
  obtain n where ys: "ys = replicate n None @ [Some failed]"
    using yielded_list_unique[of failed env "get_parts_queryset_by_upload_id_obj_id w 0" True w]
      a first by auto
  have ne: "failed \<noteq> []" using a by auto
  have "abort_clear_loop env (length (get_parts_queryset_by_upload_id_obj_id w 0)) ys w1 =
          (True, w1)"
    using a ne by (simp add: ys abort_clear_loop_skip)
  then show "abort_multipart_upload env w =
      (ErrorResponse S3InternalError [],
       snd (clear_parts_cache_iter env (get_parts_queryset_by_upload_id_obj_id w 0) True w))"
    using a first by (simp add: abort_multipart_upload_def)
next
  assume b: "fst (combine_loop env (complete_numbers creq) used etag
                    (length (complete_numbers creq)) 0 [] start_time ([], False) w') =
               Inr (off, md) \<and>
    fst (update_obj_metedata off (md5_hexdigest env md)
           (snd (snd (combine_loop env (complete_numbers creq) used etag
                        (length (complete_numbers creq)) 0 [] start_time ([], False) w'))))"
  obtain r st1 w1 where c:
    "combine_loop env (complete_numbers creq) used etag (length (complete_numbers creq))
       0 [] start_time ([], False) w' = (r, st1, w1)"
    by (cases "combine_loop env (complete_numbers creq) used etag
                 (length (complete_numbers creq)) 0 [] start_time ([], False) w'") auto
  obtain ok w2 where u: "update_obj_metedata off (md5_hexdigest env md) w1 = (ok, w2)"
    by (cases "update_obj_metedata off (md5_hexdigest env md) w1") auto
  show "fst (complete_try env creq used unused etag start_time w') = Inr ()"
    using b c u by (simp add: complete_try_def Let_def split: prod.splits)
qed

text \<open>
  A completion over seven stored parts that uses parts 1 and 2: of the five unused parts,
  parts 3, 4 and 5 fail metadata deletion twice each (their rows stay), and the response
  is the result document, the session deleted.
\<close>

theorem completion_ignores_majority_failure:
  "fst (clear_parts_cache_iter (ex_handler_env (\<lambda>n. 0) 1) (drop 2 (ex_small_parts 7)) True
          (ex_world ''old'' (ex_small_parts 7)
             (fail_script PartMetaDelete [False, False, False, False, False, False]))) =
     [Some [ex_part 3 2 ''m3'', ex_part 4 2 ''m4'', ex_part 5 2 ''m5'']] \<and>
   fst (complete_multipart_upload_handle (ex_handler_env (\<lambda>n. 0) 1) ex_complete_request
          (ex_world ''old'' (ex_small_parts 7)
             (fail_script PartMetaDelete [False, False, False, False, False, False]))) =
     Inr (IterResponse [ResultXml True ''http://h/bucket/key'' ''bucket'' ''key''
                          ([CHR 0x22] @ ''m1m2-2'' @ [CHR 0x22])]) \<and>
   map part_num (parts_db (snd (complete_multipart_upload_handle (ex_handler_env (\<lambda>n. 0) 1)
          ex_complete_request
          (ex_world ''old'' (ex_small_parts 7)
             (fail_script PartMetaDelete [False, False, False, False, False, False]))))) =
     [1, 2, 3, 4, 5] \<and>
   upload_status (snd (complete_multipart_upload_handle (ex_handler_env (\<lambda>n. 0) 1)
          ex_complete_request
          (ex_world ''old'' (ex_small_parts 7)
             (fail_script PartMetaDelete [False, False, False, False, False, False])))) = None"
  by (simp add: eval_simps del: str_nat.simps)

lemma ex_abort_first_pass:
  "Some [ex_part 1 2 ''m1'', ex_part 2 2 ''m2'', ex_part 3 2 ''m3''] \<in>
     set (fst (clear_parts_cache_iter (ex_handler_env (\<lambda>n. 0) 1)
            (get_parts_queryset_by_upload_id_obj_id
               (ex_world ''old'' (ex_small_parts 5)
                  (fail_script PartMetaDelete [False, False, False, False, False, False])) 0)
            True
            (ex_world ''old'' (ex_small_parts 5)
               (fail_script PartMetaDelete [False, False, False, False, False, False]))))"
  by (simp add: eval_simps del: str_nat.simps)

lemma ex_abort_first_pass_events:
  "events (snd (clear_parts_cache_iter (ex_handler_env (\<lambda>n. 0) 1)
            (get_parts_queryset_by_upload_id_obj_id
               (ex_world ''old'' (ex_small_parts 5)
                  (fail_script PartMetaDelete [False, False, False, False, False, False])) 0)
            True
            (ex_world ''old'' (ex_small_parts 5)
               (fail_script PartMetaDelete [False, False, False, False, False, False])))) =
     [Ev PartMetaDelete 1 False, Ev PartMetaDelete 1 False, Ev PartRadosDelete 1 True,
      Ev PartMetaDelete 2 False, Ev PartMetaDelete 2 False, Ev PartRadosDelete 2 True,
      Ev PartMetaDelete 3 False, Ev PartMetaDelete 3 False, Ev PartRadosDelete 3 True,
      Ev PartMetaDelete 4 True, Ev PartRadosDelete 4 True,
      Ev PartMetaDelete 5 True, Ev PartRadosDelete 5 True]"
  by (simp add: eval_simps del: str_nat.simps)

lemma ex_combine_succeeds:
  "fst (combine_loop (ex_handler_env (\<lambda>n. 0) 1) (complete_numbers ex_complete_request)
          [(1, ex_part 1 2 ''m1''), (2, ex_part 2 2 ''m2'')] ''etag''
          (length (complete_numbers ex_complete_request)) 0 [] 0 ([], False)
          (ex_world [] (ex_small_parts 7)
             (fail_script PartMetaDelete [False, False, False, False, False, False]))) =
     Inr (4, ''abab'')"
  by (simp add: eval_simps del: str_nat.simps)

lemma ex_update_succeeds:
  "fst (update_obj_metedata 4 (md5_hexdigest (ex_handler_env (\<lambda>n. 0) 1) ''abab'')
          (snd (snd (combine_loop (ex_handler_env (\<lambda>n. 0) 1)
             (complete_numbers ex_complete_request)
             [(1, ex_part 1 2 ''m1''), (2, ex_part 2 2 ''m2'')] ''etag''
             (length (complete_numbers ex_complete_request)) 0 [] 0 ([], False)
             (ex_world [] (ex_small_parts 7)
                (fail_script PartMetaDelete [False, False, False, False, False, False]))))))"
  by (simp add: eval_simps del: str_nat.simps)

text \<open>
  An abort over five parts of which three fail metadata deletion: the internal error,
  and the store calls made are those of the first pass alone. A completion whose cleanup
  meets the same failures: its \<open>try\<close> block ends without an error.
\<close>

theorem abort_majority_failure_example:
  "fst (abort_multipart_upload (ex_handler_env (\<lambda>n. 0) 1)
          (ex_world ''old'' (ex_small_parts 5)
             (fail_script PartMetaDelete [False, False, False, False, False, False]))) =
     ErrorResponse S3InternalError [] \<and>
   events (snd (abort_multipart_upload (ex_handler_env (\<lambda>n. 0) 1)
          (ex_world ''old'' (ex_small_parts 5)
             (fail_script PartMetaDelete [False, False, False, False, False, False])))) =
     [Ev PartMetaDelete 1 False, Ev PartMetaDelete 1 False, Ev PartRadosDelete 1 True,
      Ev PartMetaDelete 2 False, Ev PartMetaDelete 2 False, Ev PartRadosDelete 2 True,
      Ev PartMetaDelete 3 False, Ev PartMetaDelete 3 False, Ev PartRadosDelete 3 True,
      Ev PartMetaDelete 4 True, Ev PartRadosDelete 4 True,
      Ev PartMetaDelete 5 True, Ev PartRadosDelete 5 True] \<and>
   fst (complete_try (ex_handler_env (\<lambda>n. 0) 1) ex_complete_request
          [(1, ex_part 1 2 ''m1''), (2, ex_part 2 2 ''m2'')] (drop 2 (ex_small_parts 7)) ''etag'' 0
          (ex_world [] (ex_small_parts 7)
             (fail_script PartMetaDelete [False, False, False, False, False, False]))) = Inr ()"
proof -
  have st: "\<not> is_composing (ex_world ''old'' (ex_small_parts 5)
             (fail_script PartMetaDelete [False, False, False, False, False, False]))"
           "\<not> is_completed (ex_world ''old'' (ex_small_parts 5)
             (fail_script PartMetaDelete [False, False, False, False, False, False]))"
    by (simp_all add: is_composing_def is_completed_def ex_world_def)
  have len: "length [ex_part 1 2 ''m1'', ex_part 2 2 ''m2'', ex_part 3 2 ''m3''] >
             length (get_parts_queryset_by_upload_id_obj_id
               (ex_world ''old'' (ex_small_parts 5)
                  (fail_script PartMetaDelete [False, False, False, False, False, False])) 0) div 2"
    by (simp add: eval_simps)
  note inst = cleanup_policy_by_caller
            [of "ex_world ''old'' (ex_small_parts 5)
                   (fail_script PartMetaDelete [False, False, False, False, False, False])"
                "[ex_part 1 2 ''m1'', ex_part 2 2 ''m2'', ex_part 3 2 ''m3'']"
                "ex_handler_env (\<lambda>n. 0) 1" ex_complete_request
                "[(1, ex_part 1 2 ''m1''), (2, ex_part 2 2 ''m2'')]" "''etag''" 0
                "ex_world [] (ex_small_parts 7)
                   (fail_script PartMetaDelete [False, False, False, False, False, False])"
                4 "''abab''" "drop 2 (ex_small_parts 7)"]
  have "abort_multipart_upload (ex_handler_env (\<lambda>n. 0) 1)
          (ex_world ''old'' (ex_small_parts 5)
             (fail_script PartMetaDelete [False, False, False, False, False, False])) =
        (ErrorResponse S3InternalError [],
         snd (clear_parts_cache_iter (ex_handler_env (\<lambda>n. 0) 1)
            (get_parts_queryset_by_upload_id_obj_id
               (ex_world ''old'' (ex_small_parts 5)
                  (fail_script PartMetaDelete [False, False, False, False, False, False])) 0)
            True
            (ex_world ''old'' (ex_small_parts 5)
               (fail_script PartMetaDelete [False, False, False, False, False, False]))))"
    using inst st ex_abort_first_pass len by blast
  moreover have "fst (complete_try (ex_handler_env (\<lambda>n. 0) 1) ex_complete_request
          [(1, ex_part 1 2 ''m1''), (2, ex_part 2 2 ''m2'')] (drop 2 (ex_small_parts 7)) ''etag'' 0
          (ex_world [] (ex_small_parts 7)
             (fail_script PartMetaDelete [False, False, False, False, False, False]))) = Inr ()"
    using inst ex_combine_succeeds ex_update_succeeds by blast
  ultimately show ?thesis using ex_abort_first_pass_events by simp
qed

text \<open>
  C5. The claim: when at least one but no more than half of the parts fail metadata
  deletion, the failed parts are retried once, what still fails is accepted, and the
  operation ends without a cleanup-induced error; in particular a retry pass in which
  every part succeeds raises no error. The code: the inner loop of the abort handler
  tests \<open>not failed_parts_2\<close>, so the outcome is the internal error exactly when the
  retry pass leaves nothing failed, and the session is deleted (with its usual outcome)
  exactly when something still fails.
\<close>

theorem abort_retry_pass_outcome:
  assumes st: "\<not> is_composing w" "\<not> is_completed w"
      and failed: "Some failed \<in> set (fst (clear_parts_cache_iter env
                      (get_parts_queryset_by_upload_id_obj_id w 0) True w))"
                  "failed \<noteq> []"
      and minor: "length failed \<le> length (get_parts_queryset_by_upload_id_obj_id w 0) div 2"
      and failed2: "Some failed2 \<in> set (fst (clear_parts_cache_iter env failed True
                      (snd (clear_parts_cache_iter env
                              (get_parts_queryset_by_upload_id_obj_id w 0) True w))))"
  shows "abort_multipart_upload env w =
           (let w2 = snd (clear_parts_cache_iter env failed True
                            (snd (clear_parts_cache_iter env
                                    (get_parts_queryset_by_upload_id_obj_id w 0) True w)))
            in if failed2 = [] then (ErrorResponse S3InternalError [], w2)
               else if fst (upload_safe_delete w2) then (NoContent, snd (upload_safe_delete w2))
               else (ErrorResponse S3InternalError [], snd (upload_safe_delete w2)))"
proof -
  obtain ys w1 where first:
    "clear_parts_cache_iter env (get_parts_queryset_by_upload_id_obj_id w 0) True w = (ys, w1)"
    by (cases "clear_parts_cache_iter env (get_parts_queryset_by_upload_id_obj_id w 0) True w")
       auto
  obtain ys2 w2 where second: "clear_parts_cache_iter env failed True w1 = (ys2, w2)"
    by (cases "clear_parts_cache_iter env failed True w1") auto
  obtain n where ys: "ys = replicate n None @ [Some failed]"
    using yielded_list_unique[of failed env "get_parts_queryset_by_upload_id_obj_id w 0" True w]
      failed(1) first by auto
  obtain n2 where ys2: "ys2 = replicate n2 None @ [Some failed2]"
    using yielded_list_unique[of failed2 env failed True w1] failed2 first second by auto
  have "abort_clear_loop env (length (get_parts_queryset_by_upload_id_obj_id w 0)) ys w1 =
          (failed2 = [], w2)"
    using minor failed(2) second
    by (simp add: ys ys2 abort_clear_loop_skip abort_retry_loop_skip)
  then show ?thesis
    using st first second
    by (simp add: abort_multipart_upload_def Let_def split: prod.splits)
qed

lemma ex_retry_first_pass:
  "Some [ex_part 1 2 ''m1''] \<in>
     set (fst (clear_parts_cache_iter (ex_handler_env (\<lambda>n. 0) 1)
            (get_parts_queryset_by_upload_id_obj_id
               (ex_world ''old'' (ex_small_parts 3) (fail_script PartMetaDelete [False, False])) 0)
            True
            (ex_world ''old'' (ex_small_parts 3) (fail_script PartMetaDelete [False, False]))))"
  by (simp add: eval_simps del: str_nat.simps)

lemma ex_retry_second_pass:
  "Some [] \<in>
     set (fst (clear_parts_cache_iter (ex_handler_env (\<lambda>n. 0) 1) [ex_part 1 2 ''m1''] True
            (snd (clear_parts_cache_iter (ex_handler_env (\<lambda>n. 0) 1)
               (get_parts_queryset_by_upload_id_obj_id
                  (ex_world ''old'' (ex_small_parts 3)
                     (fail_script PartMetaDelete [False, False])) 0)
               True
               (ex_world ''old'' (ex_small_parts 3)
                  (fail_script PartMetaDelete [False, False]))))))"
  by (simp add: eval_simps del: str_nat.simps)

lemma ex_retry_final_state:
  "parts_db (snd (clear_parts_cache_iter (ex_handler_env (\<lambda>n. 0) 1) [ex_part 1 2 ''m1''] True
            (snd (clear_parts_cache_iter (ex_handler_env (\<lambda>n. 0) 1)
               (get_parts_queryset_by_upload_id_obj_id
                  (ex_world ''old'' (ex_small_parts 3)
                     (fail_script PartMetaDelete [False, False])) 0)
               True
               (ex_world ''old'' (ex_small_parts 3)
                  (fail_script PartMetaDelete [False, False])))))) = [] \<and>
   upload_status (snd (clear_parts_cache_iter (ex_handler_env (\<lambda>n. 0) 1) [ex_part 1 2 ''m1''] True
            (snd (clear_parts_cache_iter (ex_handler_env (\<lambda>n. 0) 1)
               (get_parts_queryset_by_upload_id_obj_id
                  (ex_world ''old'' (ex_small_parts 3)
                     (fail_script PartMetaDelete [False, False])) 0)
               True
               (ex_world ''old'' (ex_small_parts 3)
                  (fail_script PartMetaDelete [False, False])))))) = Some Uploading"
  by (simp add: eval_simps del: str_nat.simps)

text \<open>
  An abort over three parts: part 1 fails metadata deletion twice in the first pass and
  is deleted by the retry pass. Every part row is gone, and the answer is the internal
  error, the session still there and uploading.
\<close>

theorem abort_successful_retry_is_internal_error:
  "fst (abort_multipart_upload (ex_handler_env (\<lambda>n. 0) 1)
          (ex_world ''old'' (ex_small_parts 3) (fail_script PartMetaDelete [False, False]))) =
     ErrorResponse S3InternalError [] \<and>
   parts_db (snd (abort_multipart_upload (ex_handler_env (\<lambda>n. 0) 1)
          (ex_world ''old'' (ex_small_parts 3) (fail_script PartMetaDelete [False, False])))) =
     [] \<and>
   upload_status (snd (abort_multipart_upload (ex_handler_env (\<lambda>n. 0) 1)
          (ex_world ''old'' (ex_small_parts 3) (fail_script PartMetaDelete [False, False])))) =
     Some Uploading"
proof -
  have st: "\<not> is_composing (ex_world ''old'' (ex_small_parts 3)
                               (fail_script PartMetaDelete [False, False]))"
           "\<not> is_completed (ex_world ''old'' (ex_small_parts 3)
                               (fail_script PartMetaDelete [False, False]))"
    by (simp_all add: is_composing_def is_completed_def ex_world_def)
  have minor: "length [ex_part 1 2 ''m1''] \<le>
               length (get_parts_queryset_by_upload_id_obj_id
                  (ex_world ''old'' (ex_small_parts 3)
                     (fail_script PartMetaDelete [False, False])) 0) div 2"
    by (simp add: eval_simps)
  have ne: "[ex_part 1 2 ''m1''] \<noteq> []" by simp
  show ?thesis
    using abort_retry_pass_outcome[OF st ex_retry_first_pass ne minor ex_retry_second_pass]
          ex_retry_final_state
    by (simp add: Let_def)
qed

subsection \<open>Keep-alive output\<close>

lemma store_call_ticks: "ticks (snd (store_call oper arg w)) = ticks w"
  by (simp add: store_call_def Let_def)

lemma part_safe_delete_ticks: "ticks (snd (part_safe_delete p w)) = ticks w"
  by (cases "store_call PartMetaDelete (part_num p) w")
     (use store_call_ticks[of PartMetaDelete "part_num p" w] in
        \<open>simp add: part_safe_delete_def\<close>)

lemma part_rados_delete_ticks: "ticks (snd (part_rados_delete p w)) = ticks w"
  by (cases "store_call PartRadosDelete (part_num p) w")
     (use store_call_ticks[of PartRadosDelete "part_num p" w] in
        \<open>simp add: part_rados_delete_def\<close>)

lemma clear_one_part_clock:
  assumes "clear_one_part env rm p failed w = (f1, t, w4)"
  shows "t = clock env (ticks w) \<and> ticks w4 = Suc (ticks w)"
proof -
  define w1 where
    "w1 = snd (if rm
               then (let (ok1, wa) = part_safe_delete p w in
                     if \<not> ok1
                     then (let (ok2, wb) = part_safe_delete p wa in
                           if \<not> ok2 then (failed @ [p], wb) else (failed, wb))
                     else (failed, wa))
               else (failed, w))"
  have t1: "ticks w1 = ticks w"
    using part_safe_delete_ticks[of p w]
      part_safe_delete_ticks[of p "snd (part_safe_delete p w)"]
    by (auto simp: w1_def Let_def split: prod.splits)
  define w3 where
    "w3 = (if \<not> fst (part_rados_delete p w1)
           then snd (part_rados_delete p (snd (part_rados_delete p w1)))
           else snd (part_rados_delete p w1))"
  have t3: "ticks w3 = ticks w"
    using t1 part_rados_delete_ticks[of p w1]
      part_rados_delete_ticks[of p "snd (part_rados_delete p w1)"]
    by (simp add: w3_def)
  have "(t, w4) = time_time env w3"
    using assms
    by (auto simp: clear_one_part_def w1_def w3_def Let_def split: prod.splits if_splits)
  then show ?thesis using t3 by (simp add: time_time_def)
qed

lemma clear_parts_loop_fast:
  assumes fast: "\<forall>k. clock env (Suc k) - clock env k < 10"
  shows "0 < ticks w \<Longrightarrow> st = clock env (ticks w - 1) \<Longrightarrow>
         (\<exists>f. fst (clear_parts_loop env rm ps st failed w) = [Some f]) \<and>
         ticks (snd (clear_parts_loop env rm ps st failed w)) = ticks w + length ps"
proof (induction ps arbitrary: st failed w)
  case Nil
  show ?case by simp
next
  case (Cons p ps)
  obtain f1 t w4 where c: "clear_one_part env rm p failed w = (f1, t, w4)"
    by (cases "clear_one_part env rm p failed w") auto
  have tk: "t = clock env (ticks w)" "ticks w4 = Suc (ticks w)"
    using clear_one_part_clock[OF c] by auto
  obtain k where k: "ticks w = Suc k" using Cons.prems(1) by (cases "ticks w") auto
  have lt: "t - st < 10" using fast Cons.prems(2) tk(1) k by simp
  have "(\<exists>f. fst (clear_parts_loop env rm ps t f1 w4) = [Some f]) \<and>
        ticks (snd (clear_parts_loop env rm ps t f1 w4)) = ticks w4 + length ps"
    using Cons.IH[of w4 t f1] tk by simp
  then show ?case using lt tk by (simp add: c)
qed

text \<open>
  C6. The claim: whenever about ten seconds pass without output, also when they add up
  over many fast iterations, one keep-alive unit is emitted. The code: an iteration that
  ends less than ten seconds after \<open>start_time\<close> moves \<open>start_time\<close> to its own end.
  So when every two consecutive readings of the clock are less than ten seconds apart,
  the cleanup generator yields its final list and no marker at all, for any number of
  parts: it reads the clock once before the loop and once a part, and the time between
  its first and its last reading is not bounded.
\<close>

theorem fast_iterations_emit_no_keep_alive:
  assumes "\<forall>k. clock env (Suc k) - clock env k < 10"
  shows "(\<exists>failed. fst (clear_parts_cache_iter env parts is_rm_metadata w) = [Some failed]) \<and>
         ticks (snd (clear_parts_cache_iter env parts is_rm_metadata w)) =
           ticks w + Suc (length parts)"
  using clear_parts_loop_fast[OF assms, of "snd (time_time env w)" "fst (time_time env w)"
          is_rm_metadata parts "[]"]
  by (simp add: clear_parts_cache_iter_def time_time_def)

lemma ex_nine_seconds: "\<forall>k. clock (ex_handler_env (\<lambda>n. 9 * of_nat n) 1) (Suc k) -
                            clock (ex_handler_env (\<lambda>n. 9 * of_nat n) 1) k < 10"
  by (simp add: ex_handler_env_def)

lemma ex_cleanup_no_marker:
  "fst (clear_parts_cache_iter (ex_handler_env (\<lambda>n. 9 * of_nat n) 1) (ex_small_parts 3) False
          (ex_world ''old'' (ex_small_parts 3) (\<lambda>x. []))) = [Some []]"
  by (simp add: eval_simps del: str_nat.simps)

lemma ex_combine_no_marker:
  "fst (complete_multipart_upload_handle (ex_handler_env (\<lambda>n. 3 * of_nat n) 1)
          ex_complete_request (ex_world ''old'' (ex_small_parts 2) (\<lambda>x. []))) =
     Inr (IterResponse [ResultXml True ''http://h/bucket/key'' ''bucket'' ''key''
                          ([CHR 0x22] @ ''m1m2-2'' @ [CHR 0x22])]) \<and>
   ticks (snd (complete_multipart_upload_handle (ex_handler_env (\<lambda>n. 3 * of_nat n) 1)
          ex_complete_request (ex_world ''old'' (ex_small_parts 2) (\<lambda>x. [])))) = 11"
  by (simp add: eval_simps del: str_nat.simps)

lemma ex_markers_after_slow_iteration:
  "fst (clear_parts_cache_iter (ex_handler_env (\<lambda>n. if n = 0 then 0 else 10 + of_nat n) 1)
          (ex_small_parts 3) False (ex_world ''old'' (ex_small_parts 3) (\<lambda>x. []))) =
     [None, None, None, Some []]"
  by (simp add: eval_simps del: str_nat.simps)

text \<open>
  With a reading every nine seconds, the cleanup of three parts takes 27 seconds and
  yields no marker. With a reading every three seconds, a whole completion of two parts
  takes eleven readings, 30 seconds, and writes the result document alone. With readings
  at 0, 11, 12 and 13 seconds, the cleanup yields a marker after each of the three parts,
  the last two a second after the one before.
\<close>

theorem keep_alive_examples:
  "(\<forall>k. clock (ex_handler_env (\<lambda>n. 9 * of_nat n) 1) (Suc k) -
         clock (ex_handler_env (\<lambda>n. 9 * of_nat n) 1) k < 10) \<and>
   fst (clear_parts_cache_iter (ex_handler_env (\<lambda>n. 9 * of_nat n) 1) (ex_small_parts 3) False
          (ex_world ''old'' (ex_small_parts 3) (\<lambda>x. []))) = [Some []] \<and>
   ticks (snd (clear_parts_cache_iter (ex_handler_env (\<lambda>n. 9 * of_nat n) 1) (ex_small_parts 3)
          False (ex_world ''old'' (ex_small_parts 3) (\<lambda>x. [])))) = 4 \<and>
   clock (ex_handler_env (\<lambda>n. 9 * of_nat n) 1) 3 -
     clock (ex_handler_env (\<lambda>n. 9 * of_nat n) 1) 0 = 27 \<and>
   fst (complete_multipart_upload_handle (ex_handler_env (\<lambda>n. 3 * of_nat n) 1)
          ex_complete_request (ex_world ''old'' (ex_small_parts 2) (\<lambda>x. []))) =
     Inr (IterResponse [ResultXml True ''http://h/bucket/key'' ''bucket'' ''key''
                          ([CHR 0x22] @ ''m1m2-2'' @ [CHR 0x22])]) \<and>
   clock (ex_handler_env (\<lambda>n. 3 * of_nat n) 1) 10 -
     clock (ex_handler_env (\<lambda>n. 3 * of_nat n) 1) 0 = 30 \<and>
   fst (clear_parts_cache_iter (ex_handler_env (\<lambda>n. if n = 0 then 0 else 10 + of_nat n) 1)
          (ex_small_parts 3) False (ex_world ''old'' (ex_small_parts 3) (\<lambda>x. []))) =
     [None, None, None, Some []]"
proof -
  have t: "ticks (snd (clear_parts_cache_iter (ex_handler_env (\<lambda>n. 9 * of_nat n) 1)
             (ex_small_parts 3) False (ex_world ''old'' (ex_small_parts 3) (\<lambda>x. [])))) = 4"
    using fast_iterations_emit_no_keep_alive
            [OF ex_nine_seconds, of "ex_small_parts 3" False
               "ex_world ''old'' (ex_small_parts 3) (\<lambda>x. [])"]
    by (simp add: ex_world_def ex_small_parts_def)
  have c: "clock (ex_handler_env (\<lambda>n. 9 * of_nat n) 1) 3 -
             clock (ex_handler_env (\<lambda>n. 9 * of_nat n) 1) 0 = 27"
          "clock (ex_handler_env (\<lambda>n. 3 * of_nat n) 1) 10 -
             clock (ex_handler_env (\<lambda>n. 3 * of_nat n) 1) 0 = 30"
    by (simp_all add: ex_handler_env_def)
  show ?thesis
    using ex_nine_seconds ex_cleanup_no_marker t c ex_combine_no_marker
      ex_markers_after_slow_iteration
    by simp
qed

subsection \<open>The minimum part size\<close>

text \<open>
  C7, as amended. For a session holding exactly two stored parts, part 1 of 4 MiB and
  part 2 of 1 KiB, both referenced with matching hashes in the order 1, 2, the validation
  fails with entity-too-small exactly when the configured minimum part size is above
  4 MiB, as the default of 5 MiB is: part 1 is not the last part, and only the last part
  is exempt from the minimum. Otherwise it succeeds with both parts used.
\<close>

theorem two_part_completion_entity_too_small:
  assumes p1: "part_num p1 = 1" "part_size p1 = 4 * 1024 ^ 2"
      and p2: "part_num p2 = 2" "part_size p2 = 1024"
      and e: "strip_char CHR 0x22 e1 = part_md5 p1" "strip_char CHR 0x22 e2 = part_md5 p2"
      and ups: "ups = [p1, p2] \<or> ups = [p2, p1]"
  shows "get_upload_parts_and_validate env ups [(1, Some e1), (2, Some e2)] [1, 2] =
           (if 4 * 1024 ^ 2 < MULTIPART_UPLOAD_MIN_SIZE env
            then Inl (S3Error S3EntityTooSmall [])
            else Inr (map (\<lambda>p. (part_num p, p)) ups, [],
                      [CHR 0x22] @ multipart_etag_hex env (map part_md5 ups) @ ''-2'' @
                      [CHR 0x22]))"
  using ups
proof
  assume "ups = [p1, p2]"
  then show ?thesis using p1 p2 e
    by (simp add: get_upload_parts_and_validate_def Let_def str_nat_Suc_Suc_0
          del: str_nat.simps)
next
  assume "ups = [p2, p1]"
  then show ?thesis using p1 p2 e
    by (simp add: get_upload_parts_and_validate_def Let_def str_nat_Suc_Suc_0
          del: str_nat.simps)
qed

text \<open>
  The claim's request under the default minimum of 5 MiB: the validation, and with it the
  completion, fails with entity-too-small although part 2 is the last part.
\<close>

theorem default_minimum_rejects_two_part_completion:
  "MULTIPART_UPLOAD_MIN_SIZE_default = 5 * 1024 ^ 2 \<and>
   get_upload_parts_and_validate (ex_handler_env (\<lambda>n. 0) MULTIPART_UPLOAD_MIN_SIZE_default)
     ex_two_parts (complete_parts ex_complete_request) (complete_numbers ex_complete_request) =
     Inl (S3Error S3EntityTooSmall []) \<and>
   fst (complete_multipart_upload_handle
          (ex_handler_env (\<lambda>n. 0) MULTIPART_UPLOAD_MIN_SIZE_default) ex_complete_request
          (ex_world [] ex_two_parts (\<lambda>x. []))) = Inl (S3Error S3EntityTooSmall [])"
  by (simp add: eval_simps del: str_nat.simps)

text \<open>The same request under a minimum of 4 MiB and under one of 5 MiB.\<close>

theorem two_part_completion_examples:
  "get_upload_parts_and_validate (ex_handler_env (\<lambda>n. 0) (4 * 1024 ^ 2))
     [ex_part 1 (4 * 1024 ^ 2) ''m1'', ex_part 2 1024 ''m2'']
     [(1, Some ([CHR 0x22] @ ''m1'' @ [CHR 0x22])), (2, Some ''m2'')] [1, 2] =
     Inr ([(1, ex_part 1 (4 * 1024 ^ 2) ''m1''), (2, ex_part 2 1024 ''m2'')], [],
          [CHR 0x22] @ ''m1m2-2'' @ [CHR 0x22]) \<and>
   get_upload_parts_and_validate (ex_handler_env (\<lambda>n. 0) (5 * 1024 ^ 2))
     [ex_part 1 (4 * 1024 ^ 2) ''m1'', ex_part 2 1024 ''m2'']
     [(1, Some ([CHR 0x22] @ ''m1'' @ [CHR 0x22])), (2, Some ''m2'')] [1, 2] =
     Inl (S3Error S3EntityTooSmall [])"
  using two_part_completion_entity_too_small
          [of "ex_part 1 (4 * 1024 ^ 2) ''m1''" "ex_part 2 1024 ''m2''"
              "[CHR 0x22] @ ''m1'' @ [CHR 0x22]" "''m2''"
              "[ex_part 1 (4 * 1024 ^ 2) ''m1'', ex_part 2 1024 ''m2'']"
              "ex_handler_env (\<lambda>n. 0) (4 * 1024 ^ 2)"]
        two_part_completion_entity_too_small
          [of "ex_part 1 (4 * 1024 ^ 2) ''m1''" "ex_part 2 1024 ''m2''"
              "[CHR 0x22] @ ''m1'' @ [CHR 0x22]" "''m2''"
              "[ex_part 1 (4 * 1024 ^ 2) ''m1'', ex_part 2 1024 ''m2'']"
              "ex_handler_env (\<lambda>n. 0) (5 * 1024 ^ 2)"]
  by (simp add: ex_part_def ex_handler_env_def strip_char_def)

end
